theory Spec2Isabelle
  imports Main "HOL-Library.Sublist" "HOL-Library.Log_Nat"
begin

section \<open>Python values, dictionaries and exceptions\<close>

text \<open>
  The wrapper (\<^verbatim>\<open>immudb_wrapper.py\<close>) passes strings, byte strings and
  JSON-shaped dictionaries around. A Python \<^verbatim>\<open>str\<close> is modelled by its UTF-8
  text (so \<^verbatim>\<open>str.encode()\<close> keeps the characters), a \<^verbatim>\<open>bytes\<close> object by
  its bytes, and a \<^verbatim>\<open>dict\<close> by the list of its items in insertion order, which
  is the order \<^verbatim>\<open>json.dumps\<close> writes them in.
\<close>

datatype pyval =
    PNone
  | PBool bool
  | PInt int
  | PStr string
  | PBytes string
  | PList "pyval list"
  | PDict "(string \<times> pyval) list"

type_synonym pydict = "(string \<times> pyval) list"

text \<open>\<^verbatim>\<open>d[k] = v\<close>: an existing key keeps its position, a new key goes last.\<close>

fun dict_set :: "pydict \<Rightarrow> string \<Rightarrow> pyval \<Rightarrow> pydict" where
  "dict_set [] k v = [(k, v)]"
| "dict_set ((k', v') # d) k v =
     (if k' = k then (k, v) # d else (k', v') # dict_set d k v)"

text \<open>
  A dictionary display \<^verbatim>\<open>{k1: v1, **m, ...}\<close> inserts its items from left to right,
  an unpacked mapping contributing its items in order.
\<close>

definition dict_display :: "(string \<times> pyval) list \<Rightarrow> pydict" where
  "dict_display items = foldl (\<lambda>d (k, v). dict_set d k v) [] items"

text \<open>\<^verbatim>\<open>k in d\<close> and \<^verbatim>\<open>d.get(k)\<close>.\<close>

definition dict_contains :: "string \<Rightarrow> pydict \<Rightarrow> bool" where
  "dict_contains k d = (map_of d k \<noteq> None)"

definition dict_get :: "pydict \<Rightarrow> string \<Rightarrow> pyval option" where
  "dict_get d k = map_of d k"

text \<open>
  The exceptions the wrapper raises, catches or lets through.
  \<^verbatim>\<open>grpc._channel._InactiveRpcError\<close> is a subclass of \<^verbatim>\<open>grpc.RpcError\<close> and
  carries what its \<^verbatim>\<open>details()\<close> returns; \<open>RpcError\<close> stands for every other
  \<^verbatim>\<open>grpc.RpcError\<close>; \<open>BareException\<close> is \<^verbatim>\<open>Exception()\<close>.
\<close>

datatype exn =
    InactiveRpcError "string option"
  | RpcError string
  | ValueError string
  | TypeError string
  | KeyError string
  | AttributeError string
  | ZeroDivisionError
  | OverflowError
  | BareException
  | OtherError string

text \<open>\<^verbatim>\<open>isinstance(exc, RpcError)\<close>, the test of \<^verbatim>\<open>except RpcError\<close>.\<close>

fun is_RpcError :: "exn \<Rightarrow> bool" where
  "is_RpcError (InactiveRpcError d) = True"
| "is_RpcError (RpcError m) = True"
| "is_RpcError e = False"

text \<open>\<^verbatim>\<open>detail in exc_details\<close> on strings: \<open>detail\<close> occurs as a contiguous part.\<close>

fun str_contains :: "string \<Rightarrow> string \<Rightarrow> bool" where
  "str_contains detail [] = (detail = [])"
| "str_contains detail (c # cs) = (prefix detail (c # cs) \<or> str_contains detail cs)"

section \<open>The runtime and the ledger client\<close>

text \<open>
  Library functions the wrapper calls and whose code is not part of the repository are
  parameters: \<^verbatim>\<open>json.dumps\<close>, \<^verbatim>\<open>json.loads\<close>, \<^verbatim>\<open>bytes.decode\<close>,
  \<^verbatim>\<open>traceback.format_exc\<close> (as a function of the exception being handled),
  \<^verbatim>\<open>hashlib.new\<close> (for an algorithm it knows, the hexadecimal digest as a function
  of the bytes fed), \<^verbatim>\<open>urllib.parse.urlparse\<close> (the \<^verbatim>\<open>netloc\<close> and the
  \<^verbatim>\<open>path\<close> of the result), \<^verbatim>\<open>datetime.strftime\<close> and the \<^verbatim>\<open>name\<close> of a
  \<^verbatim>\<open>pathlib.Path\<close>.
\<close>

record runtime =
  json_dumps :: "pyval \<Rightarrow> exn + string"
  json_loads :: "string \<Rightarrow> exn + pyval"
  bytes_decode :: "string \<Rightarrow> exn + string"
  format_exc :: "exn \<Rightarrow> string"
  hashlib_new :: "string \<Rightarrow> exn + (string \<Rightarrow> string)"
  urlparse :: "string \<Rightarrow> string \<times> string"
  strftime :: "int \<times> int \<Rightarrow> string \<Rightarrow> string"
  path_name :: "string \<Rightarrow> string"

text \<open>
  Everything the wrapper does to the outside is recorded in order: the RPCs of the
  inherited \<^verbatim>\<open>ImmudbClient\<close>, the logger's error records and the calls of
  \<^verbatim>\<open>time.sleep\<close>.
\<close>

datatype event =
    RpcLogin string string string
  | RpcUseDatabase string
  | RpcVerifiedGet string "int option"
  | RpcVerifiedSet string string
  | LoggerError string string int
  | Sleep int

record 's world =
  trace :: "event list"
  ledger :: 's

type_synonym ('s, 'a) io = "'s world \<Rightarrow> (exn + 'a) \<times> 's world"

definition return_io :: "'a \<Rightarrow> ('s, 'a) io" where
  "return_io x = (\<lambda>s. (Inr x, s))"

definition bind_io :: "('s, 'a) io \<Rightarrow> ('a \<Rightarrow> ('s, 'b) io) \<Rightarrow> ('s, 'b) io" where
  "bind_io m f = (\<lambda>s. case m s of (Inl e, s') \<Rightarrow> (Inl e, s') | (Inr x, s') \<Rightarrow> f x s')"

text \<open>A pure computation that may raise, run inside the effectful code.\<close>

definition lift_io :: "exn + 'a \<Rightarrow> ('s, 'a) io" where
  "lift_io r = (\<lambda>s. (r, s))"

text \<open>
  The ledger service behind the inherited client: each RPC reads and changes the
  service's state \<open>'s\<close> and either returns or raises. A response dataclass
  (\<^verbatim>\<open>SafeGetResponse\<close>, \<^verbatim>\<open>SetResponse\<close>) is the list of its fields in declaration
  order, which is what \<^verbatim>\<open>dataclasses.asdict\<close> makes a dictionary of.
\<close>

record 's client =
  rpc_login :: "string \<Rightarrow> string \<Rightarrow> string \<Rightarrow> 's \<Rightarrow> (exn + unit) \<times> 's"
  rpc_useDatabase :: "string \<Rightarrow> 's \<Rightarrow> (exn + unit) \<times> 's"
  rpc_verifiedGet :: "string \<Rightarrow> int option \<Rightarrow> 's \<Rightarrow> (exn + pydict) \<times> 's"
  rpc_verifiedSet :: "string \<Rightarrow> string \<Rightarrow> 's \<Rightarrow> (exn + pydict) \<times> 's"

definition perform :: "event \<Rightarrow> ('s \<Rightarrow> (exn + 'a) \<times> 's) \<Rightarrow> ('s, 'a) io" where
  "perform ev rpc = (\<lambda>s. case rpc (ledger s) of
     (r, l) \<Rightarrow> (r, \<lparr>trace = trace s @ [ev], ledger = l\<rparr>))"

text \<open>The instance: the constructor's arguments the methods read, and the client.\<close>

record 's ImmudbWrapper =
  username :: string
  password :: string
  database :: string
  max_retries :: int
  retry_timeout :: int
  client :: "'s client"

section \<open>The ledger session\<close>

definition encode :: "runtime \<Rightarrow> pyval \<Rightarrow> exn + string" where
  \<open>encode rt v =
     (case v of
        PStr s \<Rightarrow> Inr s
      | PBytes b \<Rightarrow> Inr b
      | PDict d \<Rightarrow> json_dumps rt (PDict d)
      | _ \<Rightarrow> Inl (ValueError ''Cannot encode value that isn't str, bytes or dict.''))\<close>

definition login :: "'s ImmudbWrapper \<Rightarrow> runtime \<Rightarrow> ('s, unit) io" where
  "login self rt =
     bind_io (lift_io (encode rt (PStr (database self)))) (\<lambda>encoded_database.
     bind_io (perform (RpcLogin (username self) (password self) encoded_database)
                (rpc_login (client self) (username self) (password self) encoded_database))
       (\<lambda>_.
     perform (RpcUseDatabase encoded_database)
       (rpc_useDatabase (client self) encoded_database)))"

text \<open>\<^verbatim>\<open>result[k] = f(result[k])\<close> where \<open>f\<close> needs a \<^verbatim>\<open>bytes\<close> object.\<close>

definition bytes_item :: "pydict \<Rightarrow> string \<Rightarrow> exn + string" where
  "bytes_item d k =
     (case dict_get d k of
        None \<Rightarrow> Inl (KeyError k)
      | Some (PBytes b) \<Rightarrow> Inr b
      | Some _ \<Rightarrow> Inl (AttributeError ''decode''))"

definition bind_exn :: "exn + 'a \<Rightarrow> ('a \<Rightarrow> exn + 'b) \<Rightarrow> exn + 'b" where
  "bind_exn r f = (case r of Inl e \<Rightarrow> Inl e | Inr x \<Rightarrow> f x)"

definition to_dict :: "runtime \<Rightarrow> pydict \<Rightarrow> exn + pydict" where
  "to_dict rt response =
     (let result = dict_display response in
      bind_exn (bytes_item result ''key'') (\<lambda>kb.
      bind_exn (bytes_decode rt kb) (\<lambda>k.
      let result = dict_set result ''key'' (PStr k) in
      bind_exn (bytes_item result ''value'') (\<lambda>vb.
      bind_exn (bytes_decode rt vb) (\<lambda>vs.
      bind_exn (json_loads rt vs) (\<lambda>v.
      Inr (dict_set result ''value'' v)))))))"

text \<open>
  \<^verbatim>\<open>try: ... except RpcError: return {'error': format_exc()}\<close>: an RPC failure
  raised anywhere in the body becomes the returned error record, every other exception
  goes on.
\<close>

definition except_RpcError :: "runtime \<Rightarrow> ('s, pydict) io \<Rightarrow> ('s, pydict) io" where
  "except_RpcError rt body = (\<lambda>s.
     case body s of
       (Inl e, s') \<Rightarrow>
         if is_RpcError e then (Inr [(''error'', PStr (format_exc rt e))], s')
         else (Inl e, s')
     | (Inr r, s') \<Rightarrow> (Inr r, s'))"

definition verified_get ::
  "'s ImmudbWrapper \<Rightarrow> runtime \<Rightarrow> pyval \<Rightarrow> int option \<Rightarrow> ('s, pydict) io" where
  "verified_get self rt key revision =
     except_RpcError rt
       (bind_io (lift_io (encode rt key)) (\<lambda>k.
        bind_io (perform (RpcVerifiedGet k revision)
                   (rpc_verifiedGet (client self) k revision)) (\<lambda>response.
        lift_io (to_dict rt response))))"

definition verified_set ::
  "'s ImmudbWrapper \<Rightarrow> runtime \<Rightarrow> pyval \<Rightarrow> pyval \<Rightarrow> ('s, pydict) io" where
  "verified_set self rt key val =
     except_RpcError rt
       (bind_io (lift_io (encode rt key)) (\<lambda>k.
        bind_io (lift_io (encode rt val)) (\<lambda>v.
        bind_io (perform (RpcVerifiedSet k v) (rpc_verifiedSet (client self) k v))
          (\<lambda>response.
        return_io (dict_display response)))))"

section \<open>The retry policy\<close>

text \<open>
  \<^verbatim>\<open>self.logger.error(fmt, func.__name__, self.retry_timeout)\<close> leaves a record;
  \<^verbatim>\<open>time.sleep(secs)\<close> refuses a negative length with a \<^verbatim>\<open>ValueError\<close>.
\<close>

definition logger_error :: "string \<Rightarrow> string \<Rightarrow> int \<Rightarrow> ('s, unit) io" where
  "logger_error fmt name secs =
     (\<lambda>s. (Inr (), s\<lparr>trace := trace s @ [LoggerError fmt name secs]\<rparr>))"

definition sleep :: "int \<Rightarrow> ('s, unit) io" where
  "sleep secs = (\<lambda>s.
     if secs < 0 then (Inl (ValueError ''sleep length must be non-negative''), s)
     else (Inr (), s\<lparr>trace := trace s @ [Sleep secs]\<rparr>))"

text \<open>
  The test of the handler \<^verbatim>\<open>except _InactiveRpcError as exc\<close>:
  \<^verbatim>\<open>exc_details and any(detail in exc_details for detail in possible_exc_details)\<close>.
  An exception of another class is not caught at all.
\<close>

fun retryable :: "string list \<Rightarrow> exn \<Rightarrow> bool" where
  "retryable possible_exc_details (InactiveRpcError None) = False"
| "retryable possible_exc_details (InactiveRpcError (Some exc_details)) =
     (exc_details \<noteq> [] \<and>
      list_ex (\<lambda>detail. str_contains detail exc_details) possible_exc_details)"
| "retryable possible_exc_details e = False"

text \<open>
  The loop of \<^verbatim>\<open>wrapped\<close>: \<^verbatim>\<open>while max_retries:\<close> runs as long as the counter
  is not zero, so it need not end; \<open>None\<close> is a call that never returns. The counter
  and \<^verbatim>\<open>last_exc\<close> are the loop's variables.
\<close>

partial_function (option) wrapped ::
  "string list \<Rightarrow> string \<Rightarrow> ('s ImmudbWrapper \<Rightarrow> ('s, 'a) io) \<Rightarrow> 's ImmudbWrapper \<Rightarrow>
   int \<Rightarrow> exn \<Rightarrow> 's world \<Rightarrow> ((exn + 'a) \<times> 's world) option" where
  \<open>wrapped possible_exc_details name func self max_retries' last_exc s =
     (if max_retries' \<noteq> 0 then
        (case func self s of
           (Inr r, s1) \<Rightarrow> Some (Inr r, s1)
         | (Inl exc, s1) \<Rightarrow>
             if retryable possible_exc_details exc then
               (case bind_io
                       (logger_error
                          ''Running the "%s" function again after %d seconds''
                          name (retry_timeout self))
                       (\<lambda>_. sleep (retry_timeout self)) s1 of
                  (Inl e, s2) \<Rightarrow> Some (Inl e, s2)
                | (Inr _, s2) \<Rightarrow>
                    wrapped possible_exc_details name func self (max_retries' - 1) exc s2)
             else Some (Inl exc, s1))
      else Some (Inl last_exc, s))\<close>

declare wrapped.simps [code]

definition retry ::
  "string list option \<Rightarrow> string \<Rightarrow> ('s ImmudbWrapper \<Rightarrow> ('s, 'a) io) \<Rightarrow>
   's ImmudbWrapper \<Rightarrow> 's world \<Rightarrow> ((exn + 'a) \<times> 's world) option" where
  "retry possible_exc_details name func self =
     wrapped (case possible_exc_details of None \<Rightarrow> [] | Some ds \<Rightarrow> ds)
       name func self (max_retries self) BareException"

section \<open>The notarization protocol\<close>

text \<open>The functions \<^verbatim>\<open>notarize\<close> and \<^verbatim>\<open>authenticate\<close> as written, before
  the decorator wraps them.\<close>

definition notarize_body ::
  "runtime \<Rightarrow> pyval \<Rightarrow> pyval \<Rightarrow> 's ImmudbWrapper \<Rightarrow> ('s, pydict) io" where
  "notarize_body rt key val self =
     bind_io (login self rt) (\<lambda>_.
     bind_io (verified_set self rt key val) (\<lambda>result.
     if dict_contains ''error'' result then return_io result
     else verified_get self rt key None))"

definition authenticate_body ::
  "runtime \<Rightarrow> pyval \<Rightarrow> 's ImmudbWrapper \<Rightarrow> ('s, pydict) io" where
  "authenticate_body rt key self =
     bind_io (login self rt) (\<lambda>_. verified_get self rt key None)"

definition notarize ::
  "'s ImmudbWrapper \<Rightarrow> runtime \<Rightarrow> pyval \<Rightarrow> pyval \<Rightarrow>
   's world \<Rightarrow> ((exn + pydict) \<times> 's world) option" where
  "notarize self rt key val =
     retry (Some [''Connection timed out'']) ''notarize'' (notarize_body rt key val) self"

definition authenticate ::
  "'s ImmudbWrapper \<Rightarrow> runtime \<Rightarrow> pyval \<Rightarrow>
   's world \<Rightarrow> ((exn + pydict) \<times> 's world) option" where
  "authenticate self rt key =
     retry (Some [''Connection timed out'']) ''authenticate'' (authenticate_body rt key) self"

section \<open>Observing a run\<close>

text \<open>
  An attempt of \<^verbatim>\<open>notarize\<close> or \<^verbatim>\<open>authenticate\<close> starts with the login RPC, so
  the login and sleep events of a trace, in order, show how attempts and backoff
  sleeps alternate. \<open>backoff\<close> is the world after the handler's
  \<^verbatim>\<open>logger.error(...)\<close> and \<^verbatim>\<open>sleep(self.retry_timeout)\<close>.
\<close>

definition attempts_and_sleeps :: "event list \<Rightarrow> event list" where
  "attempts_and_sleeps tr =
     filter (\<lambda>ev. case ev of RpcLogin u p d \<Rightarrow> True | Sleep t \<Rightarrow> True | _ \<Rightarrow> False) tr"

definition backoff :: "string \<Rightarrow> int \<Rightarrow> 's world \<Rightarrow> 's world" where
  \<open>backoff name secs s =
     s\<lparr>trace := trace s @
        [LoggerError ''Running the "%s" function again after %d seconds'' name secs,
         Sleep secs]\<rparr>\<close>

section \<open>Size formatting\<close>

text \<open>
  \<^verbatim>\<open>get_size_format\<close> starts with an \<^verbatim>\<open>int\<close> and, after the first
  \<^verbatim>\<open>value /= factor\<close>, goes on with a \<^verbatim>\<open>float\<close>. A float is modelled by its sign
  and its magnitude, a rational number; \<open>round_to_double\<close> rounds a magnitude to the
  nearest IEEE 754 binary64 value, ties to even, with 53 significant bits above
  \<open>2\<^sup>-\<^sup>1\<^sup>0\<^sup>2\<^sup>2\<close> and the fixed spacing \<open>2\<^sup>-\<^sup>1\<^sup>0\<^sup>7\<^sup>4\<close> below. A result of \<open>2\<^sup>1\<^sup>0\<^sup>2\<^sup>4\<close> or more is
  the \<^verbatim>\<open>OverflowError\<close> of the conversions from \<^verbatim>\<open>int\<close>.
\<close>

definition round_half_even :: "rat \<Rightarrow> int" where
  "round_half_even x =
     (let f = \<lfloor>x\<rfloor>; r = x - of_int f in
      if r < 1 / 2 then f
      else if 1 / 2 < r then f + 1
      else if even f then f else f + 1)"

text \<open>The exponent \<open>e\<close> with \<open>2\<^sup>e \<le> x < 2\<^sup>e\<^sup>+\<^sup>1\<close>, for a positive \<open>x\<close>.\<close>

definition floor_log2 :: "rat \<Rightarrow> int" where
  "floor_log2 x = (if 1 \<le> x then bitlen \<lfloor>x\<rfloor> - 1 else - bitlen (\<lceil>1 / x\<rceil> - 1))"

definition round_to_double :: "rat \<Rightarrow> rat" where
  "round_to_double x =
     (if x = 0 then 0
      else let q = 2 powi (max (floor_log2 x) (- 1022) - 52)
           in of_int (round_half_even (x / q)) * q)"

datatype pyfloat = PyFloat (negative: bool) (magnitude: rat)

text \<open>\<^verbatim>\<open>float(i)\<close>, as the formatting of an \<^verbatim>\<open>int\<close> and the division of a
  \<^verbatim>\<open>float\<close> by an \<^verbatim>\<open>int\<close> apply it.\<close>

definition float_of_int :: "int \<Rightarrow> exn + pyfloat" where
  "float_of_int i =
     (let m = round_to_double (of_int \<bar>i\<bar>) in
      if 2 ^ 1024 \<le> m then Inl OverflowError else Inr (PyFloat (i < 0) m))"

text \<open>\<^verbatim>\<open>a / b\<close> on two \<^verbatim>\<open>int\<close>s: the correctly rounded quotient.\<close>

definition int_truediv :: "int \<Rightarrow> int \<Rightarrow> exn + pyfloat" where
  "int_truediv a b =
     (if b = 0 then Inl ZeroDivisionError
      else let m = round_to_double (of_int \<bar>a\<bar> / of_int \<bar>b\<bar>) in
        if 2 ^ 1024 \<le> m then Inl OverflowError
        else Inr (PyFloat ((a < 0) \<noteq> (b < 0)) m))"

text \<open>\<^verbatim>\<open>x / b\<close> on a \<^verbatim>\<open>float\<close> and an \<^verbatim>\<open>int\<close>: \<open>b\<close> is converted first.\<close>

definition float_truediv :: "pyfloat \<Rightarrow> int \<Rightarrow> exn + pyfloat" where
  "float_truediv x b =
     (case float_of_int b of
        Inl e \<Rightarrow> Inl e
      | Inr y \<Rightarrow>
          if magnitude y = 0 then Inl ZeroDivisionError
          else Inr (PyFloat (negative x \<noteq> negative y)
                      (round_to_double (magnitude x / magnitude y))))"

datatype pynum = NInt int | NFloat pyfloat

text \<open>\<^verbatim>\<open>value < factor\<close>; Python compares a float with an int exactly.\<close>

fun num_less :: "pynum \<Rightarrow> int \<Rightarrow> bool" where
  "num_less (NInt a) b = (a < b)"
| "num_less (NFloat x) b =
     ((if negative x then - magnitude x else magnitude x) < of_int b)"

fun truediv :: "pynum \<Rightarrow> int \<Rightarrow> exn + pyfloat" where
  "truediv (NInt a) b = int_truediv a b"
| "truediv (NFloat x) b = float_truediv x b"

fun str_of_nat :: "nat \<Rightarrow> string" where
  "str_of_nat n =
     (if n < 10 then [''0123456789'' ! n]
      else str_of_nat (n div 10) @ [''0123456789'' ! (n mod 10)])"

text \<open>
  The format specification \<^verbatim>\<open>.2f\<close>: the exact value rounded to two decimals, ties
  to even, with the sign of the float (also of a negative zero).
\<close>

definition format_2f :: "pyfloat \<Rightarrow> string" where
  "format_2f x =
     (let n = nat (round_half_even (magnitude x * 100)) in
      (if negative x then ''-'' else []) @ str_of_nat (n div 100) @ ''.'' @
      [''0123456789'' ! (n mod 100 div 10), ''0123456789'' ! (n mod 10)])"

fun format_num_2f :: "pynum \<Rightarrow> exn + string" where
  "format_num_2f (NInt a) =
     (case float_of_int a of Inl e \<Rightarrow> Inl e | Inr x \<Rightarrow> Inr (format_2f x))"
| "format_num_2f (NFloat x) = Inr (format_2f x)"

text \<open>The \<^verbatim>\<open>for unit in [...]\<close> loop of \<^verbatim>\<open>get_size_format\<close> over the units left,
  and the \<^verbatim>\<open>return\<close> after it.\<close>

fun size_units :: "pynum \<Rightarrow> int \<Rightarrow> string \<Rightarrow> string list \<Rightarrow> exn + string" where
  "size_units v factor suffix' [] =
     (case format_num_2f v of Inl e \<Rightarrow> Inl e | Inr t \<Rightarrow> Inr (t @ '' Y'' @ suffix'))"
| "size_units v factor suffix' (unit # units) =
     (if num_less v factor then
        (case format_num_2f v of
           Inl e \<Rightarrow> Inl e
         | Inr t \<Rightarrow> Inr (t @ '' '' @ unit @ suffix'))
      else
        (case truediv v factor of
           Inl e \<Rightarrow> Inl e
         | Inr v' \<Rightarrow> size_units (NFloat v') factor suffix' units))"

definition get_size_format :: "int \<Rightarrow> int \<Rightarrow> string \<Rightarrow> exn + string" where
  "get_size_format v factor suffix' =
     size_units (NInt v) factor suffix'
       [[], ''K'', ''M'', ''G'', ''T'', ''P'', ''E'', ''Z'']"

text \<open>
  The specification's wording of \<^verbatim>\<open>scaleBytes\<close>, to compare with the code: go
  through the unit prefixes; while the value is at least the factor, divide and advance;
  past the last named unit the prefix is \<^verbatim>\<open>Y\<close>; then format the value with two
  decimals, followed by the prefix and the suffix.
\<close>

fun scale_while :: "pynum \<Rightarrow> int \<Rightarrow> string list \<Rightarrow> exn + pynum \<times> string" where
  "scale_while v factor [] = Inr (v, ''Y'')"
| "scale_while v factor (unit # units) =
     (if \<not> num_less v factor then
        (case truediv v factor of
           Inl e \<Rightarrow> Inl e
         | Inr v' \<Rightarrow> scale_while (NFloat v') factor units)
      else Inr (v, unit))"

definition scaleBytes :: "int \<Rightarrow> int \<Rightarrow> string \<Rightarrow> exn + string" where
  "scaleBytes v factor suffix' =
     (case scale_while (NInt v) factor [[], ''K'', ''M'', ''G'', ''T'', ''P'', ''E'', ''Z''] of
        Inl e \<Rightarrow> Inl e
      | Inr (v', unit) \<Rightarrow>
          (case format_num_2f v' of
             Inl e \<Rightarrow> Inl e
           | Inr t \<Rightarrow> Inr (t @ '' '' @ unit @ suffix')))"

section \<open>Hashing and sizes\<close>

text \<open>
  A \<^verbatim>\<open>hashlib\<close> object is the digest function \<^verbatim>\<open>hashlib.new\<close> gave and the bytes
  fed so far: \<^verbatim>\<open>update\<close> appends, \<^verbatim>\<open>hexdigest\<close> digests what was fed.
\<close>

type_synonym hasher = "(string \<Rightarrow> string) \<times> string"

definition get_hasher :: "runtime \<Rightarrow> string \<Rightarrow> exn + hasher" where
  "get_hasher rt checksum_type =
     (case hashlib_new rt checksum_type of
        Inl e \<Rightarrow> Inl e
      | Inr digest \<Rightarrow> Inr (digest, []))"

definition hasher_update :: "hasher \<Rightarrow> string \<Rightarrow> hasher" where
  "hasher_update hasher buff = (fst hasher, snd hasher @ buff)"

definition hexdigest :: "hasher \<Rightarrow> string" where
  "hexdigest hasher = fst hasher (snd hasher)"

text \<open>\<^verbatim>\<open>_fd.read(n)\<close> on the bytes not yet read: what is read, and what is left.\<close>

definition fd_read :: "int \<Rightarrow> string \<Rightarrow> string \<times> string" where
  "fd_read n fd =
     (if n < 0 then (fd, []) else (take (nat n) fd, drop (nat n) fd))"

function feed_hasher :: "int \<Rightarrow> hasher \<Rightarrow> string \<Rightarrow> hasher" where
  "feed_hasher buff_size hasher fd =
     (case fd_read buff_size fd of
        (buff, rest) \<Rightarrow>
          if length buff \<noteq> 0
          then feed_hasher buff_size (hasher_update hasher buff) rest
          else hasher)"
  by pat_completeness auto
termination
  by (relation "measure (\<lambda>(buff_size, hasher, fd). length fd)")
     (auto simp: fd_read_def split: if_splits)

declare feed_hasher.simps [simp del]

text \<open>
  Files and repositories as the calls of the wrapper find them: the bytes
  \<^verbatim>\<open>open(path, 'rb')\<close> reads, \<^verbatim>\<open>Path(path).stat().st_size\<close>, the entries of
  \<^verbatim>\<open>Path(path).rglob('*')\<close> and \<^verbatim>\<open>git.Repo(path)\<close>, each with the exception it
  raises instead. The records of the git library follow below.
\<close>

record actor =
  actor_email :: string
  actor_name :: string

text \<open>
  A commit object: \<open>parents\<close> are the shas of its direct parents, first parent first,
  as the commit object itself records them (\<^verbatim>\<open>commit.parents\<close>); a datetime is a
  POSIX time with its UTC offset.
\<close>

record commit =
  hexsha :: string
  author :: actor
  authored_datetime :: "int \<times> int"
  committer :: actor
  committed_datetime :: "int \<times> int"
  message :: string
  gpgsig :: "string option"
  parents :: "string list"
  tree_hexsha :: string

text \<open>
  A repository handle: the URL of \<^verbatim>\<open>repo.remote()\<close>, the commit of
  \<^verbatim>\<open>repo.commit()\<close> (HEAD), and \<open>rev_list r sha\<close>, the commits that
  \<^verbatim>\<open>git rev-list sha\<close> lists in this repository: the commit \<open>sha\<close> itself first,
  then every commit reachable from it that the repository holds.
\<close>

record repo =
  remote_url :: "exn + string"
  head_commit :: "exn + commit"
  rev_list :: "string \<Rightarrow> commit list"

record filesystem =
  open_rb :: "string \<Rightarrow> exn + string"
  stat_size :: "string \<Rightarrow> exn + int"
  rglob :: "string \<Rightarrow> string list"
  Repo :: "string \<Rightarrow> exn + repo"

text \<open>
  \<^verbatim>\<open>hash_file\<close> on a path, the \<^verbatim>\<open>isinstance(file_path, str)\<close> branch, which is the
  one \<^verbatim>\<open>notarize_file\<close> and \<^verbatim>\<open>authenticate_file\<close> take; the bytes read are
  \<^verbatim>\<open>bytes\<close> already, so the \<^verbatim>\<open>buff.encode()\<close> of the loop is not reached.
\<close>

definition hash_file ::
  "runtime \<Rightarrow> filesystem \<Rightarrow> string \<Rightarrow> string \<Rightarrow> int \<Rightarrow> hasher option \<Rightarrow> exn + string" where
  "hash_file rt fs file_path hash_type buff_size hasher =
     bind_exn (case hasher of None \<Rightarrow> get_hasher rt hash_type | Some h \<Rightarrow> Inr h) (\<lambda>h.
     bind_exn (open_rb fs file_path) (\<lambda>fd.
     Inr (hexdigest (feed_hasher buff_size h fd))))"

definition hash_content :: "runtime \<Rightarrow> pyval \<Rightarrow> exn + string" where
  "hash_content rt content =
     bind_exn (get_hasher rt ''sha256'') (\<lambda>hasher.
     bind_exn (case content of
                 PStr s \<Rightarrow> Inr s
               | PBytes b \<Rightarrow> Inr b
               | _ \<Rightarrow> Inl (TypeError ''object supporting the buffer API required''))
       (\<lambda>b. Inr (hexdigest (hasher_update hasher b))))"

definition get_file_size :: "filesystem \<Rightarrow> string \<Rightarrow> exn + int" where
  "get_file_size fs file_path = stat_size fs file_path"

fun sum_st_size :: "filesystem \<Rightarrow> int \<Rightarrow> string list \<Rightarrow> exn + int" where
  "sum_st_size fs acc [] = Inr acc"
| "sum_st_size fs acc (file # files) =
     (case stat_size fs file of
        Inl e \<Rightarrow> Inl e
      | Inr n \<Rightarrow> sum_st_size fs (acc + n) files)"

definition get_directory_size :: "filesystem \<Rightarrow> string \<Rightarrow> exn + int" where
  "get_directory_size fs path = sum_st_size fs 0 (rglob fs path)"

section \<open>Git metadata\<close>

text \<open>
  \<^verbatim>\<open>commit.iter_parents()\<close> of the git library iterates over all the ancestors of
  the commit, not over its direct parents only: it runs \<^verbatim>\<open>git rev-list\<close> from the
  commit with \<^verbatim>\<open>skip=1\<close>, which leaves the commit itself out.
\<close>

definition iter_parents :: "repo \<Rightarrow> commit \<Rightarrow> commit list" where
  "iter_parents r c = drop 1 (rev_list r (hexsha c))"

text \<open>\<^verbatim>\<open>re.sub(r"^/", ":", path)\<close>.\<close>

fun re_sub_leading_slash :: "string \<Rightarrow> string" where
  "re_sub_leading_slash [] = []"
| "re_sub_leading_slash (c # cs) = (if c = CHR ''/'' then CHR '':'' # cs else c # cs)"

definition actor_dict :: "runtime \<Rightarrow> actor \<Rightarrow> int \<times> int \<Rightarrow> pyval" where
  "actor_dict rt a when =
     PDict [(''Email'', PStr (actor_email a)),
            (''Name'', PStr (actor_name a)),
            (''When'', PStr (strftime rt when ''%Y-%m-%dT%H:%M:%S%z''))]"

definition extract_git_metadata :: "runtime \<Rightarrow> filesystem \<Rightarrow> string \<Rightarrow> exn + pydict" where
  "extract_git_metadata rt fs repo_path =
     bind_exn (Repo fs repo_path) (\<lambda>r.
     bind_exn (remote_url r) (\<lambda>u.
     bind_exn (head_commit r) (\<lambda>c.
     case urlparse rt u of (netloc, path) \<Rightarrow>
       Inr [(''Name'',
               PStr (''git@'' @ netloc @ re_sub_leading_slash path @ ''@'' @ take 7 (hexsha c))),
            (''git'',
               PDict [(''Author'', actor_dict rt (author c) (authored_datetime c)),
                      (''Commit'', PStr (hexsha c)),
                      (''Committer'', actor_dict rt (committer c) (committed_datetime c)),
                      (''Message'', PStr (message c)),
                      (''PGPSignature'',
                         (case gpgsig c of None \<Rightarrow> PNone | Some sig \<Rightarrow> PStr sig)),
                      (''Parents'',
                         PList (map (\<lambda>parent. PStr (hexsha parent)) (iter_parents r c))),
                      (''Tree'', PStr (tree_hexsha c))])])))"

definition default_metadata :: pydict where
  "default_metadata = [(''sbom_api_ver'', PStr ''0.2'')]"

text \<open>\<^verbatim>\<open>d[k]\<close>.\<close>

definition dict_item :: "pydict \<Rightarrow> string \<Rightarrow> exn + pyval" where
  "dict_item d k = (case dict_get d k of None \<Rightarrow> Inl (KeyError k) | Some v \<Rightarrow> Inr v)"

section \<open>Notarizing and authenticating files and repositories\<close>

text \<open>
  The four entry points compute a key and, to notarize, a payload, and hand them to
  \<^verbatim>\<open>notarize\<close> or \<^verbatim>\<open>authenticate\<close>; an exception raised on the way ends the call
  before any RPC. \<^verbatim>\<open>if not user_metadata: user_metadata = {}\<close> makes \<open>None\<close> the
  empty mapping.
\<close>

definition notarize_file ::
  "'s ImmudbWrapper \<Rightarrow> runtime \<Rightarrow> filesystem \<Rightarrow> string \<Rightarrow> pydict option \<Rightarrow>
   's world \<Rightarrow> ((exn + pydict) \<times> 's world) option" where
  "notarize_file self rt fs file user_metadata s =
     (let user_metadata' = (case user_metadata of None \<Rightarrow> [] | Some d \<Rightarrow> d) in
      case bind_exn (hash_file rt fs file ''sha256'' 1048576 None) (\<lambda>hash_file'.
           bind_exn (get_file_size fs file) (\<lambda>n.
           bind_exn (get_size_format n 1024 ''B'') (\<lambda>size'.
           Inr (hash_file',
                [(''Name'', PStr (path_name rt file)),
                 (''Kind'', PStr ''file''),
                 (''Size'', PStr size'),
                 (''Hash'', PStr hash_file'),
                 (''Signer'', PStr (username self)),
                 (''Metadata'',
                    PDict (dict_display (default_metadata @ user_metadata')))])))) of
        Inl e \<Rightarrow> Some (Inl e, s)
      | Inr (key, payload) \<Rightarrow> notarize self rt (PStr key) (PDict payload) s)"

definition notarize_git_repo ::
  "'s ImmudbWrapper \<Rightarrow> runtime \<Rightarrow> filesystem \<Rightarrow> string \<Rightarrow> pydict option \<Rightarrow>
   's world \<Rightarrow> ((exn + pydict) \<times> 's world) option" where
  "notarize_git_repo self rt fs repo_path user_metadata s =
     (let user_metadata' = (case user_metadata of None \<Rightarrow> [] | Some d \<Rightarrow> d) in
      case bind_exn (extract_git_metadata rt fs repo_path) (\<lambda>git_metadata.
           bind_exn (dict_item git_metadata ''git'') (\<lambda>git.
           bind_exn (json_dumps rt git) (\<lambda>dumped.
           bind_exn (hash_content rt (PStr dumped)) (\<lambda>metadata_hash.
           bind_exn (dict_item git_metadata ''Name'') (\<lambda>name'.
           bind_exn (get_directory_size fs repo_path) (\<lambda>n.
           bind_exn (get_size_format n 1024 ''B'') (\<lambda>size'.
           Inr (metadata_hash,
                [(''Name'', name'),
                 (''Kind'', PStr ''git''),
                 (''Size'', PStr size'),
                 (''Hash'', PStr metadata_hash),
                 (''Signer'', PStr (username self)),
                 (''Metadata'',
                    PDict (dict_display
                      ((''git'', git) # default_metadata @ user_metadata')))])))))))) of
        Inl e \<Rightarrow> Some (Inl e, s)
      | Inr (key, payload) \<Rightarrow> notarize self rt (PStr key) (PDict payload) s)"

definition authenticate_file ::
  "'s ImmudbWrapper \<Rightarrow> runtime \<Rightarrow> filesystem \<Rightarrow> string \<Rightarrow>
   's world \<Rightarrow> ((exn + pydict) \<times> 's world) option" where
  "authenticate_file self rt fs file s =
     (case hash_file rt fs file ''sha256'' 1048576 None of
        Inl e \<Rightarrow> Some (Inl e, s)
      | Inr key \<Rightarrow> authenticate self rt (PStr key) s)"

definition authenticate_git_repo ::
  "'s ImmudbWrapper \<Rightarrow> runtime \<Rightarrow> filesystem \<Rightarrow> string \<Rightarrow>
   's world \<Rightarrow> ((exn + pydict) \<times> 's world) option" where
  "authenticate_git_repo self rt fs repo_path s =
     (case bind_exn (extract_git_metadata rt fs repo_path) (\<lambda>git_metadata.
           bind_exn (dict_item git_metadata ''git'') (\<lambda>git.
           bind_exn (json_dumps rt git) (\<lambda>dumped.
           hash_content rt (PStr dumped)))) of
        Inl e \<Rightarrow> Some (Inl e, s)
      | Inr metadata_hash \<Rightarrow> authenticate self rt (PStr metadata_hash) s)"

section \<open>Sample runtimes, ledgers and instances\<close>

text \<open>
  Concrete stand-ins on which the theorems below are instantiated: a runtime whose
  library functions are simple placeholders, an in-memory ledger that stores what is set, a
  ledger no RPC reaches, and a ledger that rejects the credentials.
\<close>

text \<open>
  A plain rendering of a value, standing in for \<^verbatim>\<open>json.dumps\<close> in the sample
  runtime (strings are not escaped, bytes are written like strings).
\<close>

primrec sample_dumps :: "pyval \<Rightarrow> string" where
  "sample_dumps PNone = ''null''"
| "sample_dumps (PBool b) = (if b then ''true'' else ''false'')"
| "sample_dumps (PInt i) = (if i < 0 then ''-'' else []) @ str_of_nat (nat \<bar>i\<bar>)"
| "sample_dumps (PStr s) = ''<'' @ s @ ''>''"
| "sample_dumps (PBytes b) = ''<'' @ b @ ''>''"
| "sample_dumps (PList xs) = ''['' @ concat (map (\<lambda>t. t @ '','') (map sample_dumps xs)) @ '']''"
| "sample_dumps (PDict d) =
     ''{'' @ concat (map (\<lambda>(k, t). k @ '':'' @ t @ '','') (map (map_prod id sample_dumps) d))
     @ ''}''"

text \<open>
  \<^verbatim>\<open>json.loads\<close> on the texts the samples store: the three literal names of JSON
  are read as Python reads them, and a text that is no JSON value is refused with the
  \<^verbatim>\<open>JSONDecodeError\<close> of \<^verbatim>\<open>json.loads\<close>, which is a \<^verbatim>\<open>ValueError\<close>.
\<close>

definition sample_loads :: "string \<Rightarrow> exn + pyval" where
  "sample_loads s =
     (if s = ''null'' then Inr PNone
      else if s = ''true'' then Inr (PBool True)
      else if s = ''false'' then Inr (PBool False)
      else Inl (ValueError ''Expecting value: line 1 column 1 (char 0)''))"

definition sample_runtime :: runtime where
  "sample_runtime =
     \<lparr>json_dumps = (\<lambda>v. Inr (sample_dumps v)),
      json_loads = sample_loads,
      bytes_decode = (\<lambda>b. Inr b),
      format_exc = (\<lambda>e. ''Traceback (most recent call last): ...''),
      hashlib_new = (\<lambda>algo. Inr (\<lambda>bs. algo @ '':'' @ bs)),
      urlparse = (\<lambda>u. (''git.almalinux.org'', ''/rpms/bash.git'')),
      strftime = (\<lambda>d f. ''2023-11-14T22:13:20+0000''),
      path_name = (\<lambda>p. ''bash.spec'')\<rparr>"

definition memory_client :: "(string \<times> string) list client" where
  "memory_client =
     \<lparr>rpc_login = (\<lambda>u p db l. (Inr (), l)),
      rpc_useDatabase = (\<lambda>db l. (Inr (), l)),
      rpc_verifiedGet = (\<lambda>k r l.
        case map_of l k of
          None \<Rightarrow> (Inl (InactiveRpcError (Some ''key not found'')), l)
        | Some v \<Rightarrow>
            (Inr [(''key'', PBytes k), (''value'', PBytes v), (''verified'', PBool True)], l)),
      rpc_verifiedSet = (\<lambda>k v l.
        (Inr [(''id'', PInt 1), (''verified'', PBool True)], (k, v) # l))\<rparr>"

definition unreachable_client :: "unit client" where
  "unreachable_client =
     \<lparr>rpc_login = (\<lambda>u p db l. (Inl (InactiveRpcError (Some ''Connection timed out'')), l)),
      rpc_useDatabase = (\<lambda>db l. (Inl (InactiveRpcError (Some ''Connection timed out'')), l)),
      rpc_verifiedGet = (\<lambda>k r l. (Inl (InactiveRpcError (Some ''Connection timed out'')), l)),
      rpc_verifiedSet = (\<lambda>k v l. (Inl (InactiveRpcError (Some ''Connection timed out'')), l))\<rparr>"

definition rejecting_client :: "unit client" where
  "rejecting_client =
     \<lparr>rpc_login = (\<lambda>u p db l. (Inl (InactiveRpcError (Some ''invalid user name or password'')), l)),
      rpc_useDatabase = (\<lambda>db l. (Inr (), l)),
      rpc_verifiedGet = (\<lambda>k r l. (Inr [], l)),
      rpc_verifiedSet = (\<lambda>k v l. (Inr [], l))\<rparr>"

definition timeout_after_login_client :: "unit client" where
  "timeout_after_login_client =
     \<lparr>rpc_login = (\<lambda>u p db l. (Inr (), l)),
      rpc_useDatabase = (\<lambda>db l. (Inr (), l)),
      rpc_verifiedGet = (\<lambda>k r l. (Inl (InactiveRpcError (Some ''Connection timed out'')), l)),
      rpc_verifiedSet = (\<lambda>k v l. (Inl (InactiveRpcError (Some ''Connection timed out'')), l))\<rparr>"

definition sample_wrapper :: "'s client \<Rightarrow> int \<Rightarrow> 's ImmudbWrapper" where
  "sample_wrapper cl n =
     \<lparr>username = ''immudb'', password = ''immudb'', database = ''defaultdb'',
      max_retries = n, retry_timeout = 10, client = cl\<rparr>"

text \<open>
  A history of three commits in a line, \<open>commit_c\<close> (HEAD) on \<open>commit_b\<close> on
  \<open>commit_a\<close>, seen through a full clone and through a clone of depth 1, both of the
  same remote; and a file system holding the two clones and one file.
\<close>

definition sample_actor :: actor where
  "sample_actor = \<lparr>actor_email = ''packager@almalinux.org'', actor_name = ''Packager''\<rparr>"

definition commit_a :: commit where
  "commit_a =
     \<lparr>hexsha = ''aaaaaaaaaaaaaaaaaaaaaaaaaaaaaaaaaaaaaaaa'',
      author = sample_actor, authored_datetime = (1700000000, 0),
      committer = sample_actor, committed_datetime = (1700000000, 0),
      message = ''import'', gpgsig = None, parents = [],
      tree_hexsha = ''1111111111111111111111111111111111111111''\<rparr>"

definition commit_b :: commit where
  "commit_b =
     \<lparr>hexsha = ''bbbbbbbbbbbbbbbbbbbbbbbbbbbbbbbbbbbbbbbb'',
      author = sample_actor, authored_datetime = (1700000100, 0),
      committer = sample_actor, committed_datetime = (1700000100, 0),
      message = ''fix'', gpgsig = None,
      parents = [''aaaaaaaaaaaaaaaaaaaaaaaaaaaaaaaaaaaaaaaa''],
      tree_hexsha = ''2222222222222222222222222222222222222222''\<rparr>"

definition commit_c :: commit where
  "commit_c =
     \<lparr>hexsha = ''cccccccccccccccccccccccccccccccccccccccc'',
      author = sample_actor, authored_datetime = (1700000200, 0),
      committer = sample_actor, committed_datetime = (1700000200, 0),
      message = ''release'', gpgsig = None,
      parents = [''bbbbbbbbbbbbbbbbbbbbbbbbbbbbbbbbbbbbbbbb''],
      tree_hexsha = ''3333333333333333333333333333333333333333''\<rparr>"

definition full_clone :: repo where
  "full_clone =
     \<lparr>remote_url = Inr ''https://git.almalinux.org/rpms/bash.git'',
      head_commit = Inr commit_c,
      rev_list = (\<lambda>sha.
        if sha = hexsha commit_c then [commit_c, commit_b, commit_a]
        else if sha = hexsha commit_b then [commit_b, commit_a]
        else if sha = hexsha commit_a then [commit_a]
        else [])\<rparr>"

definition shallow_clone :: repo where
  "shallow_clone =
     \<lparr>remote_url = Inr ''https://git.almalinux.org/rpms/bash.git'',
      head_commit = Inr commit_c,
      rev_list = (\<lambda>sha. if sha = hexsha commit_c then [commit_c] else [])\<rparr>"

definition sample_filesystem :: filesystem where
  "sample_filesystem =
     \<lparr>open_rb = (\<lambda>p.
        if p = ''/tmp/bash.spec'' then Inr ''Name: bash''
        else Inl (OtherError ''FileNotFoundError'')),
      stat_size = (\<lambda>p. if p = ''/tmp/bash.spec'' then Inr 10 else Inr 4096),
      rglob = (\<lambda>p.
        if p = ''/src/full'' then [''/src/full/.git'', ''/src/full/bash.spec'']
        else if p = ''/src/shallow'' then [''/src/shallow/.git'']
        else []),
      Repo = (\<lambda>p.
        if p = ''/src/full'' then Inr full_clone
        else if p = ''/src/shallow'' then Inr shallow_clone
        else Inl (OtherError ''InvalidGitRepositoryError''))\<rparr>"

section \<open>Error capture at the verified read and write\<close>

lemma map_of_dict_set: "map_of (dict_set d k v) = (map_of d)(k \<mapsto> v)"
  by (induction d) (auto simp: fun_eq_iff)

lemma except_RpcError_never_rpc:
  "except_RpcError rt body s = (Inl e, s') \<Longrightarrow> \<not> is_RpcError e"
  by (auto simp: except_RpcError_def split: prod.splits sum.splits if_splits)

lemma verified_get_never_rpc:
  "verified_get self rt key revision s = (Inl e, s') \<Longrightarrow> \<not> is_RpcError e"
  unfolding verified_get_def by (rule except_RpcError_never_rpc)

lemma verified_set_never_rpc:
  "verified_set self rt key val s = (Inl e, s') \<Longrightarrow> \<not> is_RpcError e"
  unfolding verified_set_def by (rule except_RpcError_never_rpc)

lemma verified_get_rpc_result:
  "encode rt key = Inr k \<Longrightarrow>
   rpc_verifiedGet (client self) k revision (ledger s) = (r, l) \<Longrightarrow>
   verified_get self rt key revision s =
     (case r of
        Inl e \<Rightarrow> if is_RpcError e then Inr [(''error'', PStr (format_exc rt e))] else Inl e
      | Inr response \<Rightarrow>
          (case to_dict rt response of
             Inl e \<Rightarrow> if is_RpcError e then Inr [(''error'', PStr (format_exc rt e))] else Inl e
           | Inr d \<Rightarrow> Inr d),
      \<lparr>trace = trace s @ [RpcVerifiedGet k revision], ledger = l\<rparr>)"
  by (auto simp: verified_get_def except_RpcError_def bind_io_def lift_io_def perform_def
      split: sum.splits)

lemma verified_set_rpc_result:
  "encode rt key = Inr k \<Longrightarrow> encode rt val = Inr v \<Longrightarrow>
   rpc_verifiedSet (client self) k v (ledger s) = (r, l) \<Longrightarrow>
   verified_set self rt key val s =
     (case r of
        Inl e \<Rightarrow> if is_RpcError e then Inr [(''error'', PStr (format_exc rt e))] else Inl e
      | Inr response \<Rightarrow> Inr (dict_display response),
      \<lparr>trace = trace s @ [RpcVerifiedSet k v], ledger = l\<rparr>)"
  by (auto simp: verified_set_def except_RpcError_def bind_io_def lift_io_def perform_def
      return_io_def split: sum.splits)

text \<open>
  C5. \<^verbatim>\<open>verified_get\<close> and \<^verbatim>\<open>verified_set\<close> never let an RPC failure out:
  no exception they raise is an \<^verbatim>\<open>RpcError\<close>. When the RPC fails with an
  \<^verbatim>\<open>RpcError\<close>, the call returns the one-item mapping whose \<^verbatim>\<open>'error'\<close> key holds
  the text \<^verbatim>\<open>format_exc()\<close> gives for that failure. When the RPC succeeds,
  \<^verbatim>\<open>verified_get\<close> returns the decoded record: the fields of the response, with
  \<^verbatim>\<open>'key'\<close> replaced by the text its bytes decode to and \<^verbatim>\<open>'value'\<close> replaced by
  what \<^verbatim>\<open>json.loads\<close> reads from the text its bytes decode to; and
  \<^verbatim>\<open>verified_set\<close> returns the response's fields as a mapping.
\<close>

theorem verified_get_set_capture_rpc_failures:
  "(\<forall>e s'. verified_get self rt key revision s = (Inl e, s') \<longrightarrow> \<not> is_RpcError e) \<and>
   (\<forall>e s'. verified_set self rt key val s = (Inl e, s') \<longrightarrow> \<not> is_RpcError e) \<and>
   (encode rt key = Inr k \<and> is_RpcError e \<and>
    rpc_verifiedGet (client self) k revision (ledger s) = (Inl e, l) \<longrightarrow>
      verified_get self rt key revision s =
        (Inr [(''error'', PStr (format_exc rt e))],
         \<lparr>trace = trace s @ [RpcVerifiedGet k revision], ledger = l\<rparr>)) \<and>
   (encode rt key = Inr k \<and>
    rpc_verifiedGet (client self) k revision (ledger s) = (Inr response, l) \<and>
    dict_get (dict_display response) ''key'' = Some (PBytes kb) \<and>
    bytes_decode rt kb = Inr ks \<and>
    dict_get (dict_display response) ''value'' = Some (PBytes vb) \<and>
    bytes_decode rt vb = Inr vs \<and>
    json_loads rt vs = Inr jv \<longrightarrow>
      verified_get self rt key revision s =
        (Inr (dict_set (dict_set (dict_display response) ''key'' (PStr ks)) ''value'' jv),
         \<lparr>trace = trace s @ [RpcVerifiedGet k revision], ledger = l\<rparr>) \<and>
      map_of (dict_set (dict_set (dict_display response) ''key'' (PStr ks)) ''value'' jv) =
        (map_of (dict_display response))(''key'' \<mapsto> PStr ks, ''value'' \<mapsto> jv)) \<and>
   (encode rt key = Inr k \<and> encode rt val = Inr v \<and> is_RpcError e \<and>
    rpc_verifiedSet (client self) k v (ledger s) = (Inl e, l) \<longrightarrow>
      verified_set self rt key val s =
        (Inr [(''error'', PStr (format_exc rt e))],
         \<lparr>trace = trace s @ [RpcVerifiedSet k v], ledger = l\<rparr>)) \<and>
   (encode rt key = Inr k \<and> encode rt val = Inr v \<and>
    rpc_verifiedSet (client self) k v (ledger s) = (Inr response, l) \<longrightarrow>
      verified_set self rt key val s =
        (Inr (dict_display response),
         \<lparr>trace = trace s @ [RpcVerifiedSet k v], ledger = l\<rparr>))"
proof (intro conjI allI impI)
  fix e s' assume "verified_get self rt key revision s = (Inl e, s')"
  then show "\<not> is_RpcError e" by (rule verified_get_never_rpc)
next
  fix e s' assume "verified_set self rt key val s = (Inl e, s')"
  then show "\<not> is_RpcError e" by (rule verified_set_never_rpc)
next
  assume "encode rt key = Inr k \<and> is_RpcError e \<and>
    rpc_verifiedGet (client self) k revision (ledger s) = (Inl e, l)"
  then show "verified_get self rt key revision s =
        (Inr [(''error'', PStr (format_exc rt e))],
         \<lparr>trace = trace s @ [RpcVerifiedGet k revision], ledger = l\<rparr>)"
    using verified_get_rpc_result [of rt key k self revision s "Inl e" l] by simp
next
  assume a: "encode rt key = Inr k \<and>
    rpc_verifiedGet (client self) k revision (ledger s) = (Inr response, l) \<and>
    dict_get (dict_display response) ''key'' = Some (PBytes kb) \<and>
    bytes_decode rt kb = Inr ks \<and>
    dict_get (dict_display response) ''value'' = Some (PBytes vb) \<and>
    bytes_decode rt vb = Inr vs \<and>
    json_loads rt vs = Inr jv"
  then have "to_dict rt response =
      Inr (dict_set (dict_set (dict_display response) ''key'' (PStr ks)) ''value'' jv)"
    by (simp add: to_dict_def bytes_item_def bind_exn_def dict_get_def map_of_dict_set)
  then show "verified_get self rt key revision s =
        (Inr (dict_set (dict_set (dict_display response) ''key'' (PStr ks)) ''value'' jv),
         \<lparr>trace = trace s @ [RpcVerifiedGet k revision], ledger = l\<rparr>)"
    using a verified_get_rpc_result [of rt key k self revision s "Inr response" l] by simp
next
  show "map_of (dict_set (dict_set (dict_display response) ''key'' (PStr ks)) ''value'' jv) =
        (map_of (dict_display response))(''key'' \<mapsto> PStr ks, ''value'' \<mapsto> jv)"
    by (simp add: map_of_dict_set)
next
  assume "encode rt key = Inr k \<and> encode rt val = Inr v \<and> is_RpcError e \<and>
    rpc_verifiedSet (client self) k v (ledger s) = (Inl e, l)"
  then show "verified_set self rt key val s =
        (Inr [(''error'', PStr (format_exc rt e))],
         \<lparr>trace = trace s @ [RpcVerifiedSet k v], ledger = l\<rparr>)"
    using verified_set_rpc_result [of rt key k val v self s "Inl e" l] by simp
next
  assume "encode rt key = Inr k \<and> encode rt val = Inr v \<and>
    rpc_verifiedSet (client self) k v (ledger s) = (Inr response, l)"
  then show "verified_set self rt key val s =
        (Inr (dict_display response),
         \<lparr>trace = trace s @ [RpcVerifiedSet k v], ledger = l\<rparr>)"
    using verified_set_rpc_result [of rt key k val v self s "Inr response" l] by simp
qed

text \<open>
  The theorem at work. On the in-memory ledger holding \<^verbatim>\<open>b'true'\<close> under
  \<^verbatim>\<open>b'abc'\<close>, reading \<^verbatim>\<open>'abc'\<close> returns the record with the key as text and the
  value as \<^verbatim>\<open>True\<close>; on the empty ledger the read fails in the RPC and the error
  record comes back; a write returns the fields of its response; on a ledger no RPC
  reaches the write returns the error record; and when the stored bytes are no JSON
  the \<^verbatim>\<open>ValueError\<close> of \<^verbatim>\<open>json.loads\<close> is raised, which is no \<^verbatim>\<open>RpcError\<close>.
\<close>

theorem verified_get_set_capture_rpc_failures_witness:
  "encode sample_runtime (PStr ''abc'') = Inr ''abc'' \<and>
   encode sample_runtime (PBytes ''true'') = Inr ''true'' \<and>
   rpc_verifiedGet memory_client ''abc'' None [(''abc'', ''true'')] =
     (Inr [(''key'', PBytes ''abc''), (''value'', PBytes ''true''), (''verified'', PBool True)],
      [(''abc'', ''true'')]) \<and>
   bytes_decode sample_runtime ''abc'' = Inr ''abc'' \<and>
   bytes_decode sample_runtime ''true'' = Inr ''true'' \<and>
   json_loads sample_runtime ''true'' = Inr (PBool True) \<and>
   verified_get (sample_wrapper memory_client 5) sample_runtime (PStr ''abc'') None
       \<lparr>trace = [], ledger = [(''abc'', ''true'')]\<rparr> =
     (Inr [(''key'', PStr ''abc''), (''value'', PBool True), (''verified'', PBool True)],
      \<lparr>trace = [RpcVerifiedGet ''abc'' None], ledger = [(''abc'', ''true'')]\<rparr>) \<and>
   is_RpcError (InactiveRpcError (Some ''key not found'')) \<and>
   rpc_verifiedGet memory_client ''abc'' None [] =
     (Inl (InactiveRpcError (Some ''key not found'')), []) \<and>
   verified_get (sample_wrapper memory_client 5) sample_runtime (PStr ''abc'') None
       \<lparr>trace = [], ledger = []\<rparr> =
     (Inr [(''error'', PStr ''Traceback (most recent call last): ...'')],
      \<lparr>trace = [RpcVerifiedGet ''abc'' None], ledger = []\<rparr>) \<and>
   rpc_verifiedSet memory_client ''abc'' ''true'' [] =
     (Inr [(''id'', PInt 1), (''verified'', PBool True)], [(''abc'', ''true'')]) \<and>
   verified_set (sample_wrapper memory_client 5) sample_runtime (PStr ''abc'') (PBytes ''true'')
       \<lparr>trace = [], ledger = []\<rparr> =
     (Inr [(''id'', PInt 1), (''verified'', PBool True)],
      \<lparr>trace = [RpcVerifiedSet ''abc'' ''true''], ledger = [(''abc'', ''true'')]\<rparr>) \<and>
   is_RpcError (InactiveRpcError (Some ''Connection timed out'')) \<and>
   rpc_verifiedSet unreachable_client ''abc'' ''true'' () =
     (Inl (InactiveRpcError (Some ''Connection timed out'')), ()) \<and>
   verified_set (sample_wrapper unreachable_client 5) sample_runtime (PStr ''abc'')
       (PBytes ''true'') \<lparr>trace = [], ledger = ()\<rparr> =
     (Inr [(''error'', PStr ''Traceback (most recent call last): ...'')],
      \<lparr>trace = [RpcVerifiedSet ''abc'' ''true''], ledger = ()\<rparr>) \<and>
   verified_get (sample_wrapper memory_client 5) sample_runtime (PStr ''abc'') None
       \<lparr>trace = [], ledger = [(''abc'', ''xyz'')]\<rparr> =
     (Inl (ValueError ''Expecting value: line 1 column 1 (char 0)''),
      \<lparr>trace = [RpcVerifiedGet ''abc'' None], ledger = [(''abc'', ''xyz'')]\<rparr>) \<and>
   \<not> is_RpcError (ValueError ''Expecting value: line 1 column 1 (char 0)'')"
proof -
  let ?w = "sample_wrapper memory_client 5"
  let ?u = "sample_wrapper unreachable_client 5"
  have enc: "encode sample_runtime (PStr ''abc'') = Inr ''abc''"
    "encode sample_runtime (PBytes ''true'') = Inr ''true''"
    by (simp_all add: encode_def)
  have dec: "bytes_decode sample_runtime ''abc'' = Inr ''abc''"
    "bytes_decode sample_runtime ''true'' = Inr ''true''"
    "json_loads sample_runtime ''true'' = Inr (PBool True)"
    by (simp_all add: sample_runtime_def sample_loads_def)
  have fmt: "format_exc sample_runtime e = ''Traceback (most recent call last): ...''" for e
    by (simp add: sample_runtime_def)
  have rpc_found: "rpc_verifiedGet (client ?w) ''abc'' None
      (ledger \<lparr>trace = [], ledger = [(''abc'', ''true'')]\<rparr>) =
     (Inr [(''key'', PBytes ''abc''), (''value'', PBytes ''true''), (''verified'', PBool True)],
      [(''abc'', ''true'')])"
    by (simp add: sample_wrapper_def memory_client_def)
  have fields:
    "dict_get (dict_display [(''key'', PBytes ''abc''), (''value'', PBytes ''true''),
        (''verified'', PBool True)]) ''key'' = Some (PBytes ''abc'')"
    "dict_get (dict_display [(''key'', PBytes ''abc''), (''value'', PBytes ''true''),
        (''verified'', PBool True)]) ''value'' = Some (PBytes ''true'')"
    by (simp_all add: dict_get_def dict_display_def)
  have decoded:
    "dict_set (dict_set (dict_display [(''key'', PBytes ''abc''), (''value'', PBytes ''true''),
        (''verified'', PBool True)]) ''key'' (PStr ''abc'')) ''value'' (PBool True) =
     [(''key'', PStr ''abc''), (''value'', PBool True), (''verified'', PBool True)]"
    by (simp add: dict_display_def)
  have found: "verified_get ?w sample_runtime (PStr ''abc'') None
       \<lparr>trace = [], ledger = [(''abc'', ''true'')]\<rparr> =
     (Inr [(''key'', PStr ''abc''), (''value'', PBool True), (''verified'', PBool True)],
      \<lparr>trace = [RpcVerifiedGet ''abc'' None], ledger = [(''abc'', ''true'')]\<rparr>)"
    using verified_get_set_capture_rpc_failures
      [where self = ?w and rt = sample_runtime and key = "PStr ''abc''" and revision = None
         and s = "\<lparr>trace = [], ledger = [(''abc'', ''true'')]\<rparr>" and k = "''abc''"
         and response = "[(''key'', PBytes ''abc''), (''value'', PBytes ''true''),
           (''verified'', PBool True)]"
         and l = "[(''abc'', ''true'')]" and kb = "''abc''" and ks = "''abc''"
         and vb = "''true''" and vs = "''true''" and jv = "PBool True",
       THEN conjunct2, THEN conjunct2, THEN conjunct2, THEN conjunct1]
      enc dec rpc_found fields decoded
    by simp
  have rpc_missing: "rpc_verifiedGet (client ?w) ''abc'' None
      (ledger \<lparr>trace = [], ledger = []\<rparr>) =
     (Inl (InactiveRpcError (Some ''key not found'')), [])"
    by (simp add: sample_wrapper_def memory_client_def)
  have missing: "verified_get ?w sample_runtime (PStr ''abc'') None
       \<lparr>trace = [], ledger = []\<rparr> =
     (Inr [(''error'', PStr ''Traceback (most recent call last): ...'')],
      \<lparr>trace = [RpcVerifiedGet ''abc'' None], ledger = []\<rparr>)"
    using verified_get_set_capture_rpc_failures
      [where self = ?w and rt = sample_runtime and key = "PStr ''abc''" and revision = None
         and s = "\<lparr>trace = [], ledger = []\<rparr>" and k = "''abc''"
         and e = "InactiveRpcError (Some ''key not found'')" and l = "[]",
       THEN conjunct2, THEN conjunct2, THEN conjunct1]
      enc rpc_missing fmt
    by simp
  have rpc_set: "rpc_verifiedSet (client ?w) ''abc'' ''true''
      (ledger \<lparr>trace = [], ledger = []\<rparr>) =
     (Inr [(''id'', PInt 1), (''verified'', PBool True)], [(''abc'', ''true'')])"
    by (simp add: sample_wrapper_def memory_client_def)
  have written: "verified_set ?w sample_runtime (PStr ''abc'') (PBytes ''true'')
       \<lparr>trace = [], ledger = []\<rparr> =
     (Inr [(''id'', PInt 1), (''verified'', PBool True)],
      \<lparr>trace = [RpcVerifiedSet ''abc'' ''true''], ledger = [(''abc'', ''true'')]\<rparr>)"
    using verified_get_set_capture_rpc_failures
      [where self = ?w and rt = sample_runtime and key = "PStr ''abc''"
         and val = "PBytes ''true''"
         and s = "\<lparr>trace = [], ledger = []\<rparr>" and k = "''abc''" and v = "''true''"
         and response = "[(''id'', PInt 1), (''verified'', PBool True)]"
         and l = "[(''abc'', ''true'')]",
       THEN conjunct2, THEN conjunct2, THEN conjunct2, THEN conjunct2, THEN conjunct2]
      enc rpc_set
    by (simp add: dict_display_def)
  have rpc_down: "rpc_verifiedSet (client ?u) ''abc'' ''true''
      (ledger \<lparr>trace = [], ledger = ()\<rparr>) =
     (Inl (InactiveRpcError (Some ''Connection timed out'')), ())"
    by (simp add: sample_wrapper_def unreachable_client_def)
  have refused: "verified_set ?u sample_runtime (PStr ''abc'') (PBytes ''true'')
       \<lparr>trace = [], ledger = ()\<rparr> =
     (Inr [(''error'', PStr ''Traceback (most recent call last): ...'')],
      \<lparr>trace = [RpcVerifiedSet ''abc'' ''true''], ledger = ()\<rparr>)"
    using verified_get_set_capture_rpc_failures
      [where self = ?u and rt = sample_runtime and key = "PStr ''abc''"
         and val = "PBytes ''true''"
         and s = "\<lparr>trace = [], ledger = ()\<rparr>" and k = "''abc''" and v = "''true''"
         and e = "InactiveRpcError (Some ''Connection timed out'')" and l = "()",
       THEN conjunct2, THEN conjunct2, THEN conjunct2, THEN conjunct2, THEN conjunct1]
      enc rpc_down fmt
    by simp
  have garbled: "verified_get ?w sample_runtime (PStr ''abc'') None
       \<lparr>trace = [], ledger = [(''abc'', ''xyz'')]\<rparr> =
     (Inl (ValueError ''Expecting value: line 1 column 1 (char 0)''),
      \<lparr>trace = [RpcVerifiedGet ''abc'' None], ledger = [(''abc'', ''xyz'')]\<rparr>)"
    by (simp add: verified_get_def except_RpcError_def bind_io_def lift_io_def perform_def
        encode_def to_dict_def bind_exn_def bytes_item_def dict_get_def dict_display_def
        sample_runtime_def sample_loads_def sample_wrapper_def memory_client_def)
  have not_rpc: "\<not> is_RpcError (ValueError ''Expecting value: line 1 column 1 (char 0)'')"
    using verified_get_set_capture_rpc_failures
      [where self = ?w and rt = sample_runtime and key = "PStr ''abc''" and revision = None
         and s = "\<lparr>trace = [], ledger = [(''abc'', ''xyz'')]\<rparr>", THEN conjunct1]
      garbled
    by blast
  have plain: "rpc_verifiedGet memory_client ''abc'' None [(''abc'', ''true'')] =
       (Inr [(''key'', PBytes ''abc''), (''value'', PBytes ''true''),
          (''verified'', PBool True)], [(''abc'', ''true'')])"
    "rpc_verifiedGet memory_client ''abc'' None [] =
       (Inl (InactiveRpcError (Some ''key not found'')), [])"
    "rpc_verifiedSet memory_client ''abc'' ''true'' [] =
       (Inr [(''id'', PInt 1), (''verified'', PBool True)], [(''abc'', ''true'')])"
    "rpc_verifiedSet unreachable_client ''abc'' ''true'' () =
       (Inl (InactiveRpcError (Some ''Connection timed out'')), ())"
    by (simp_all add: memory_client_def unreachable_client_def)
  show ?thesis
    using enc dec found missing written refused garbled not_rpc plain
    by simp
qed

section \<open>One attempt\<close>

lemma login_result:
  "login self rt s =
     (case rpc_login (client self) (username self) (password self) (database self) (ledger s) of
        (Inl e, l1) \<Rightarrow>
          (Inl e, \<lparr>trace = trace s @
             [RpcLogin (username self) (password self) (database self)], ledger = l1\<rparr>)
      | (Inr u, l1) \<Rightarrow>
          (case rpc_useDatabase (client self) (database self) l1 of
             (r, l2) \<Rightarrow>
               (r, \<lparr>trace = trace s @
                  [RpcLogin (username self) (password self) (database self),
                   RpcUseDatabase (database self)], ledger = l2\<rparr>)))"
  by (auto simp: login_def bind_io_def lift_io_def perform_def encode_def split: prod.splits sum.splits)

lemma login_attempt_shape:
  "login self rt s = (r, s') \<Longrightarrow>
   \<exists>evs. trace s' = trace s @ evs \<and>
     attempts_and_sleeps evs = [RpcLogin (username self) (password self) (database self)]"
  by (auto simp: login_result attempts_and_sleeps_def split: prod.splits sum.splits)

lemma notarize_body_rpc_error:
  "notarize_body rt key val self s = (Inl e, s') \<Longrightarrow> is_RpcError e \<Longrightarrow>
   login self rt s = (Inl e, s')"
  by (auto simp: notarize_body_def bind_io_def return_io_def
      split: prod.splits sum.splits if_splits
      dest: verified_get_never_rpc verified_set_never_rpc)

lemma authenticate_body_rpc_error:
  "authenticate_body rt key self s = (Inl e, s') \<Longrightarrow> is_RpcError e \<Longrightarrow>
   login self rt s = (Inl e, s')"
  by (auto simp: authenticate_body_def bind_io_def
      split: prod.splits sum.splits
      dest: verified_get_never_rpc)

lemma str_contains_iff: "str_contains detail s \<longleftrightarrow> sublist detail s"
  by (induction s) (auto simp: sublist_Cons_right)

lemma retryable_is_RpcError: "retryable ds e \<Longrightarrow> is_RpcError e"
  by (cases "(ds, e)" rule: retryable.cases) auto

lemma wrapped_zero: "wrapped ds name func self 0 last_exc s = Some (Inl last_exc, s)"
  by (subst wrapped.simps) simp

lemma wrapped_return:
  "n \<noteq> 0 \<Longrightarrow> func self s = (Inr r, s1) \<Longrightarrow>
   wrapped ds name func self n last_exc s = Some (Inr r, s1)"
  by (subst wrapped.simps) simp

lemma wrapped_raise:
  "n \<noteq> 0 \<Longrightarrow> func self s = (Inl e, s1) \<Longrightarrow> \<not> retryable ds e \<Longrightarrow>
   wrapped ds name func self n last_exc s = Some (Inl e, s1)"
  by (subst wrapped.simps) simp

lemma wrapped_retry:
  "n \<noteq> 0 \<Longrightarrow> func self s = (Inl e, s1) \<Longrightarrow> retryable ds e \<Longrightarrow> 0 \<le> retry_timeout self \<Longrightarrow>
   wrapped ds name func self n last_exc s =
     wrapped ds name func self (n - 1) e (backoff name (retry_timeout self) s1)"
  by (subst wrapped.simps)
     (simp add: bind_io_def logger_error_def sleep_def backoff_def)

lemma wrapped_sleep_refused:
  "n \<noteq> 0 \<Longrightarrow> func self s = (Inl e, s1) \<Longrightarrow> retryable ds e \<Longrightarrow> retry_timeout self < 0 \<Longrightarrow>
   \<exists>s2. wrapped ds name func self n last_exc s =
     Some (Inl (ValueError ''sleep length must be non-negative''), s2)"
  by (subst wrapped.simps)
     (simp add: bind_io_def logger_error_def sleep_def backoff_def)


lemma attempts_and_sleeps_append:
  "attempts_and_sleeps (xs @ ys) = attempts_and_sleeps xs @ attempts_and_sleeps ys"
  by (simp add: attempts_and_sleeps_def)

lemma backoff_shape:
  "\<exists>evs. trace (backoff name secs s) = trace s @ evs \<and> attempts_and_sleeps evs = [Sleep secs]"
  by (simp add: backoff_def attempts_and_sleeps_def)

lemma wrapped_exhausts:
  assumes always: "\<And>s. \<exists>e s'. func self s = (Inl e, s') \<and> retryable ds e"
    and shape: "\<And>s e s'. func self s = (Inl e, s') \<Longrightarrow> retryable ds e \<Longrightarrow>
      \<exists>evs. trace s' = trace s @ evs \<and> attempts_and_sleeps evs = [a]"
    and nonneg: "0 \<le> retry_timeout self"
  shows "\<exists>e s_last s_fail evs.
     wrapped ds name func self (int (Suc n)) last_exc s =
       Some (Inl e, backoff name (retry_timeout self) s_fail) \<and>
     func self s_last = (Inl e, s_fail) \<and> retryable ds e \<and>
     trace (backoff name (retry_timeout self) s_fail) = trace s @ evs \<and>
     attempts_and_sleeps evs = concat (replicate (Suc n) [a, Sleep (retry_timeout self)])"
proof (induction n arbitrary: s last_exc)
  case 0
  obtain e s1 where f: "func self s = (Inl e, s1)" and r: "retryable ds e"
    using always [of s] by blast
  obtain evs where evs: "trace s1 = trace s @ evs" "attempts_and_sleeps evs = [a]"
    using shape [of s e s1] f r by blast
  let ?s2 = "backoff name (retry_timeout self) s1"
  obtain evb where evb: "trace ?s2 = trace s1 @ evb"
      "attempts_and_sleeps evb = [Sleep (retry_timeout self)]"
    using backoff_shape [of name "retry_timeout self" s1] by blast
  have "wrapped ds name func self (int (Suc 0)) last_exc s = Some (Inl e, ?s2)"
    using wrapped_retry [where func = func and self = self and s = s and n = 1 and ds = ds
        and e = e and ?s1.0 = s1 and name = name and last_exc = last_exc] f r nonneg
    by (simp add: wrapped_zero)
  moreover have "trace ?s2 = trace s @ (evs @ evb)"
    by (simp add: evb evs)
  moreover have "attempts_and_sleeps (evs @ evb) =
      concat (replicate (Suc 0) [a, Sleep (retry_timeout self)])"
    by (simp add: attempts_and_sleeps_append evs evb)
  ultimately show ?case using f r by blast
next
  case (Suc n)
  obtain e s1 where f: "func self s = (Inl e, s1)" and r: "retryable ds e"
    using always [of s] by blast
  obtain evs where evs: "trace s1 = trace s @ evs" "attempts_and_sleeps evs = [a]"
    using shape [of s e s1] f r by blast
  let ?s2 = "backoff name (retry_timeout self) s1"
  obtain evb where evb: "trace ?s2 = trace s1 @ evb"
      "attempts_and_sleeps evb = [Sleep (retry_timeout self)]"
    using backoff_shape [of name "retry_timeout self" s1] by blast
  have step: "wrapped ds name func self (int (Suc (Suc n))) last_exc s =
      wrapped ds name func self (int (Suc n)) e ?s2"
    using wrapped_retry [where func = func and self = self and s = s and ds = ds
        and n = "int (Suc (Suc n))" and e = e and ?s1.0 = s1 and name = name
        and last_exc = last_exc] f r nonneg
    by simp
  obtain e' s_last s_fail evs' where ih:
    "wrapped ds name func self (int (Suc n)) e ?s2 =
       Some (Inl e', backoff name (retry_timeout self) s_fail)"
    "func self s_last = (Inl e', s_fail)" "retryable ds e'"
    "trace (backoff name (retry_timeout self) s_fail) = trace ?s2 @ evs'"
    "attempts_and_sleeps evs' = concat (replicate (Suc n) [a, Sleep (retry_timeout self)])"
    using Suc.IH [of e ?s2] by blast
  have "trace (backoff name (retry_timeout self) s_fail) = trace s @ (evs @ evb @ evs')"
    by (simp add: ih(4) evb evs)
  moreover have "attempts_and_sleeps (evs @ evb @ evs') =
      concat (replicate (Suc (Suc n)) [a, Sleep (retry_timeout self)])"
    by (simp add: attempts_and_sleeps_append evs evb ih(5))
  ultimately show ?case using step ih(1,2,3) by (metis (no_types, lifting))
qed


lemma notarize_body_eq:
  "notarize_body rt key val self s =
     (case login self rt s of
        (Inl e, s1) \<Rightarrow> (Inl e, s1)
      | (Inr u, s1) \<Rightarrow>
          (case verified_set self rt key val s1 of
             (Inl e, s2) \<Rightarrow> (Inl e, s2)
           | (Inr result, s2) \<Rightarrow>
               if dict_contains ''error'' result then (Inr result, s2)
               else verified_get self rt key None s2))"
  by (simp add: notarize_body_def bind_io_def return_io_def split: prod.splits sum.splits)

lemma authenticate_body_eq:
  "authenticate_body rt key self s =
     (case login self rt s of
        (Inl e, s1) \<Rightarrow> (Inl e, s1)
      | (Inr u, s1) \<Rightarrow> verified_get self rt key None s1)"
  by (simp add: authenticate_body_def bind_io_def split: prod.splits sum.splits)

lemma notarize_body_not_retryable:
  "login self rt s = (Inr u, s1) \<Longrightarrow> notarize_body rt key val self s = (Inl e, s') \<Longrightarrow>
   \<not> retryable ds e"
  using notarize_body_rpc_error retryable_is_RpcError by fastforce

lemma authenticate_body_not_retryable:
  "login self rt s = (Inr u, s1) \<Longrightarrow> authenticate_body rt key self s = (Inl e, s') \<Longrightarrow>
   \<not> retryable ds e"
  using authenticate_body_rpc_error retryable_is_RpcError by fastforce

lemma wrapped_single_attempt:
  "n \<noteq> 0 \<Longrightarrow> (\<And>e s'. func self s = (Inl e, s') \<Longrightarrow> \<not> retryable ds e) \<Longrightarrow>
   wrapped ds name func self n last_exc s = Some (func self s)"
  by (cases "func self s" rule: prod.exhaust; cases "fst (func self s)")
     (auto simp: wrapped_return wrapped_raise)

lemma notarize_after_login:
  "max_retries self \<noteq> 0 \<Longrightarrow> login self rt s = (Inr u, s1) \<Longrightarrow>
   notarize self rt key val s = Some (notarize_body rt key val self s)"
  unfolding notarize_def retry_def
  by (rule wrapped_single_attempt) (auto dest: notarize_body_not_retryable)

lemma authenticate_after_login:
  "max_retries self \<noteq> 0 \<Longrightarrow> login self rt s = (Inr u, s1) \<Longrightarrow>
   authenticate self rt key s = Some (authenticate_body rt key self s)"
  unfolding authenticate_def retry_def
  by (rule wrapped_single_attempt) (auto dest: authenticate_body_not_retryable)


lemma verified_get_shape:
  "verified_get self rt key revision s = (r, s') \<Longrightarrow>
   \<exists>evs. trace s' = trace s @ evs \<and> attempts_and_sleeps evs = []"
  by (auto simp: verified_get_def except_RpcError_def bind_io_def lift_io_def perform_def
      attempts_and_sleeps_def split: prod.splits sum.splits if_splits)

lemma verified_set_shape:
  "verified_set self rt key val s = (r, s') \<Longrightarrow>
   \<exists>evs. trace s' = trace s @ evs \<and> attempts_and_sleeps evs = []"
  by (auto simp: verified_set_def except_RpcError_def bind_io_def lift_io_def perform_def
      return_io_def attempts_and_sleeps_def split: prod.splits sum.splits if_splits)

lemma notarize_body_shape:
  assumes "notarize_body rt key val self s = (r, s')"
  shows "\<exists>evs. trace s' = trace s @ evs \<and>
     attempts_and_sleeps evs = [RpcLogin (username self) (password self) (database self)]"
proof (cases "login self rt s")
  case (Pair r1 s1)
  obtain ev1 where ev1: "trace s1 = trace s @ ev1"
      "attempts_and_sleeps ev1 = [RpcLogin (username self) (password self) (database self)]"
    using login_attempt_shape [OF Pair] by blast
  show ?thesis
  proof (cases r1)
    case (Inl e)
    then have "s' = s1" using assms Pair by (simp add: notarize_body_eq)
    then show ?thesis using ev1 by blast
  next
    case (Inr u)
    obtain r2 s2 where set: "verified_set self rt key val s1 = (r2, s2)" by fastforce
    obtain ev2 where ev2: "trace s2 = trace s1 @ ev2" "attempts_and_sleeps ev2 = []"
      using verified_set_shape [OF set] by blast
    have "\<exists>ev3. trace s' = trace s2 @ ev3 \<and> attempts_and_sleeps ev3 = []"
    proof (cases "\<exists>result. r2 = Inr result \<and> \<not> dict_contains ''error'' result")
      case True
      then have "verified_get self rt key None s2 = (r, s')"
        using assms Pair Inr set by (auto simp: notarize_body_eq)
      then show ?thesis by (rule verified_get_shape)
    next
      case False
      then have "s' = s2"
        using assms Pair Inr set by (cases r2) (auto simp: notarize_body_eq split: if_splits)
      then show ?thesis by (simp add: attempts_and_sleeps_def)
    qed
    then obtain ev3 where ev3: "trace s' = trace s2 @ ev3" "attempts_and_sleeps ev3 = []"
      by blast
    have "trace s' = trace s @ (ev1 @ ev2 @ ev3)" by (simp add: ev1 ev2 ev3)
    moreover have "attempts_and_sleeps (ev1 @ ev2 @ ev3) =
        [RpcLogin (username self) (password self) (database self)]"
      by (simp add: attempts_and_sleeps_append ev1 ev2 ev3)
    ultimately show ?thesis by blast
  qed
qed

lemma authenticate_body_shape:
  assumes "authenticate_body rt key self s = (r, s')"
  shows "\<exists>evs. trace s' = trace s @ evs \<and>
     attempts_and_sleeps evs = [RpcLogin (username self) (password self) (database self)]"
proof (cases "login self rt s")
  case (Pair r1 s1)
  obtain ev1 where ev1: "trace s1 = trace s @ ev1"
      "attempts_and_sleeps ev1 = [RpcLogin (username self) (password self) (database self)]"
    using login_attempt_shape [OF Pair] by blast
  show ?thesis
  proof (cases r1)
    case (Inl e)
    then have "s' = s1" using assms Pair by (simp add: authenticate_body_eq)
    then show ?thesis using ev1 by blast
  next
    case (Inr u)
    then have "verified_get self rt key None s1 = (r, s')"
      using assms Pair by (simp add: authenticate_body_eq)
    then obtain ev2 where ev2: "trace s' = trace s1 @ ev2" "attempts_and_sleeps ev2 = []"
      using verified_get_shape by blast
    have "trace s' = trace s @ (ev1 @ ev2)" by (simp add: ev1 ev2)
    moreover have "attempts_and_sleeps (ev1 @ ev2) =
        [RpcLogin (username self) (password self) (database self)]"
      by (simp add: attempts_and_sleeps_append ev1 ev2)
    ultimately show ?thesis by blast
  qed
qed


section \<open>Write, then read back\<close>

text \<open>
  C1. An attempt of \<^verbatim>\<open>notarize(key, value)\<close> first logs in again; if the login
  raises, nothing else is done. Then it calls \<^verbatim>\<open>verified_set(key, value)\<close>; a
  result with an \<^verbatim>\<open>'error'\<close> key is returned as it is, and otherwise the result of
  \<^verbatim>\<open>verified_get(key)\<close> is returned. With a retry counter other than zero and a
  login that succeeds, this one attempt is the whole call. On the ledger the RPCs are
  issued in the order login, useDatabase, verifiedSet, verifiedGet.
\<close>

theorem notarize_relogin_set_then_get:
  "notarize_body rt key val self s =
     (case login self rt s of
        (Inl e, s1) \<Rightarrow> (Inl e, s1)
      | (Inr u, s1) \<Rightarrow>
          (case verified_set self rt key val s1 of
             (Inl e, s2) \<Rightarrow> (Inl e, s2)
           | (Inr result, s2) \<Rightarrow>
               if dict_contains ''error'' result then (Inr result, s2)
               else verified_get self rt key None s2)) \<and>
   (max_retries self \<noteq> 0 \<and> login self rt s = (Inr u, s1) \<longrightarrow>
      notarize self rt key val s = Some (notarize_body rt key val self s)) \<and>
   (login self rt s = (Inr u, s1) \<and> encode rt key = Inr k \<and> encode rt val = Inr v \<and>
    rpc_verifiedSet (client self) k v (ledger s1) = (Inr response, l) \<and>
    \<not> dict_contains ''error'' (dict_display response) \<longrightarrow>
      trace s1 = trace s @ [RpcLogin (username self) (password self) (database self),
                            RpcUseDatabase (database self)] \<and>
      trace (snd (notarize_body rt key val self s)) =
        trace s1 @ [RpcVerifiedSet k v, RpcVerifiedGet k None])"
proof (intro conjI impI)
  show "notarize_body rt key val self s =
     (case login self rt s of
        (Inl e, s1) \<Rightarrow> (Inl e, s1)
      | (Inr u, s1) \<Rightarrow>
          (case verified_set self rt key val s1 of
             (Inl e, s2) \<Rightarrow> (Inl e, s2)
           | (Inr result, s2) \<Rightarrow>
               if dict_contains ''error'' result then (Inr result, s2)
               else verified_get self rt key None s2))"
    by (rule notarize_body_eq)
next
  assume "max_retries self \<noteq> 0 \<and> login self rt s = (Inr u, s1)"
  then show "notarize self rt key val s = Some (notarize_body rt key val self s)"
    using notarize_after_login by blast
next
  assume a: "login self rt s = (Inr u, s1) \<and> encode rt key = Inr k \<and> encode rt val = Inr v \<and>
    rpc_verifiedSet (client self) k v (ledger s1) = (Inr response, l) \<and>
    \<not> dict_contains ''error'' (dict_display response)"
  then show "trace s1 = trace s @ [RpcLogin (username self) (password self) (database self),
                            RpcUseDatabase (database self)]"
    by (auto simp: login_result split: prod.splits sum.splits)
next
  assume a: "login self rt s = (Inr u, s1) \<and> encode rt key = Inr k \<and> encode rt val = Inr v \<and>
    rpc_verifiedSet (client self) k v (ledger s1) = (Inr response, l) \<and>
    \<not> dict_contains ''error'' (dict_display response)"
  let ?s2 = "\<lparr>trace = trace s1 @ [RpcVerifiedSet k v], ledger = l\<rparr>"
  have set: "verified_set self rt key val s1 = (Inr (dict_display response), ?s2)"
    using a verified_set_rpc_result [of rt key k val v self s1 "Inr response" l] by simp
  obtain rg l' where get: "rpc_verifiedGet (client self) k None (ledger ?s2) = (rg, l')"
    by fastforce
  have "trace (snd (verified_get self rt key None ?s2)) = trace ?s2 @ [RpcVerifiedGet k None]"
    using a verified_get_rpc_result [of rt key k self None ?s2 rg l', OF _ get] by simp
  then show "trace (snd (notarize_body rt key val self s)) =
        trace s1 @ [RpcVerifiedSet k v, RpcVerifiedGet k None]"
    using a set by (simp add: notarize_body_eq)
qed

theorem notarize_relogin_set_then_get_witness:
  "max_retries (sample_wrapper memory_client 5) \<noteq> 0 \<and>
   login (sample_wrapper memory_client 5) sample_runtime \<lparr>trace = [], ledger = []\<rparr> =
     (Inr (), \<lparr>trace = [RpcLogin ''immudb'' ''immudb'' ''defaultdb'',
                        RpcUseDatabase ''defaultdb''], ledger = []\<rparr>) \<and>
   encode sample_runtime (PStr ''abc'') = Inr ''abc'' \<and>
   encode sample_runtime (PBytes ''true'') = Inr ''true'' \<and>
   rpc_verifiedSet (client (sample_wrapper memory_client 5)) ''abc'' ''true'' [] =
     (Inr [(''id'', PInt 1), (''verified'', PBool True)], [(''abc'', ''true'')]) \<and>
   \<not> dict_contains ''error'' (dict_display [(''id'', PInt 1), (''verified'', PBool True)]) \<and>
   notarize (sample_wrapper memory_client 5) sample_runtime (PStr ''abc'') (PBytes ''true'')
       \<lparr>trace = [], ledger = []\<rparr> =
     Some (Inr [(''key'', PStr ''abc''), (''value'', PBool True), (''verified'', PBool True)],
       \<lparr>trace = [RpcLogin ''immudb'' ''immudb'' ''defaultdb'', RpcUseDatabase ''defaultdb'',
                 RpcVerifiedSet ''abc'' ''true'', RpcVerifiedGet ''abc'' None],
        ledger = [(''abc'', ''true'')]\<rparr>)"
  using notarize_relogin_set_then_get
    [where self = "sample_wrapper memory_client 5" and rt = sample_runtime
       and key = "PStr ''abc''" and val = "PBytes ''true''"
       and s = "\<lparr>trace = [], ledger = []\<rparr>" and u = "()"
       and ?s1.0 = "\<lparr>trace = [RpcLogin ''immudb'' ''immudb'' ''defaultdb'',
                        RpcUseDatabase ''defaultdb''], ledger = []\<rparr>"
       and k = "''abc''" and v = "''true''"
       and response = "[(''id'', PInt 1), (''verified'', PBool True)]"
       and l = "[(''abc'', ''true'')]"]
  by (simp add: notarize_body_def login_def verified_get_def verified_set_def
      except_RpcError_def bind_io_def lift_io_def return_io_def perform_def encode_def
      to_dict_def bind_exn_def bytes_item_def dict_get_def dict_display_def dict_contains_def
      sample_runtime_def sample_loads_def sample_wrapper_def memory_client_def)


section \<open>What can trigger a retry\<close>

text \<open>
  C2. Only \<^verbatim>\<open>notarize\<close> and \<^verbatim>\<open>authenticate\<close> are wrapped by the retry policy.
  \<^verbatim>\<open>verified_get\<close> and \<^verbatim>\<open>verified_set\<close> never raise an RPC failure (they return
  it as an error record), so when an attempt of \<^verbatim>\<open>notarize\<close> or
  \<^verbatim>\<open>authenticate\<close> raises a failure that the policy retries, that failure was raised
  by the login step, with the world the login left. If the login succeeds, the call is
  that single attempt, whatever the verifiedSet and verifiedGet RPCs do.
\<close>

theorem retry_only_on_login_failure:
  "(\<forall>e s'. verified_get self rt key revision s = (Inl e, s') \<longrightarrow> \<not> is_RpcError e) \<and>
   (\<forall>e s'. verified_set self rt key val s = (Inl e, s') \<longrightarrow> \<not> is_RpcError e) \<and>
   (\<forall>e s'. notarize_body rt key val self s = (Inl e, s') \<and> is_RpcError e \<longrightarrow>
      login self rt s = (Inl e, s')) \<and>
   (\<forall>e s'. authenticate_body rt key self s = (Inl e, s') \<and> is_RpcError e \<longrightarrow>
      login self rt s = (Inl e, s')) \<and>
   (\<forall>ds e. retryable ds e \<longrightarrow> is_RpcError e) \<and>
   (\<forall>u s1. max_retries self \<noteq> 0 \<and> login self rt s = (Inr u, s1) \<longrightarrow>
      notarize self rt key val s = Some (notarize_body rt key val self s) \<and>
      authenticate self rt key s = Some (authenticate_body rt key self s))"
proof (intro conjI allI impI)
  fix e s' assume "verified_get self rt key revision s = (Inl e, s')"
  then show "\<not> is_RpcError e" by (rule verified_get_never_rpc)
next
  fix e s' assume "verified_set self rt key val s = (Inl e, s')"
  then show "\<not> is_RpcError e" by (rule verified_set_never_rpc)
next
  fix e s' assume "notarize_body rt key val self s = (Inl e, s') \<and> is_RpcError e"
  then show "login self rt s = (Inl e, s')" using notarize_body_rpc_error by blast
next
  fix e s' assume "authenticate_body rt key self s = (Inl e, s') \<and> is_RpcError e"
  then show "login self rt s = (Inl e, s')" using authenticate_body_rpc_error by blast
next
  fix ds e assume "retryable ds e"
  then show "is_RpcError e" by (rule retryable_is_RpcError)
next
  fix u s1 assume "max_retries self \<noteq> 0 \<and> login self rt s = (Inr u, s1)"
  then show "notarize self rt key val s = Some (notarize_body rt key val self s)"
    using notarize_after_login by blast
next
  fix u s1 assume "max_retries self \<noteq> 0 \<and> login self rt s = (Inr u, s1)"
  then show "authenticate self rt key s = Some (authenticate_body rt key self s)"
    using authenticate_after_login by blast
qed

theorem retry_only_on_login_failure_witness:
  "notarize_body sample_runtime (PStr ''abc'') (PBytes ''xyz'')
       (sample_wrapper unreachable_client 2) \<lparr>trace = [], ledger = ()\<rparr> =
     (Inl (InactiveRpcError (Some ''Connection timed out'')),
      \<lparr>trace = [RpcLogin ''immudb'' ''immudb'' ''defaultdb''], ledger = ()\<rparr>) \<and>
   retryable [''Connection timed out''] (InactiveRpcError (Some ''Connection timed out'')) \<and>
   is_RpcError (InactiveRpcError (Some ''Connection timed out'')) \<and>
   login (sample_wrapper unreachable_client 2) sample_runtime \<lparr>trace = [], ledger = ()\<rparr> =
     (Inl (InactiveRpcError (Some ''Connection timed out'')),
      \<lparr>trace = [RpcLogin ''immudb'' ''immudb'' ''defaultdb''], ledger = ()\<rparr>) \<and>
   max_retries (sample_wrapper timeout_after_login_client 2) \<noteq> 0 \<and>
   login (sample_wrapper timeout_after_login_client 2) sample_runtime
       \<lparr>trace = [], ledger = ()\<rparr> =
     (Inr (), \<lparr>trace = [RpcLogin ''immudb'' ''immudb'' ''defaultdb'',
                        RpcUseDatabase ''defaultdb''], ledger = ()\<rparr>) \<and>
   notarize (sample_wrapper timeout_after_login_client 2) sample_runtime (PStr ''abc'')
       (PBytes ''xyz'') \<lparr>trace = [], ledger = ()\<rparr> =
     Some (Inr [(''error'', PStr ''Traceback (most recent call last): ...'')],
       \<lparr>trace = [RpcLogin ''immudb'' ''immudb'' ''defaultdb'', RpcUseDatabase ''defaultdb'',
                 RpcVerifiedSet ''abc'' ''xyz''], ledger = ()\<rparr>)"
  using retry_only_on_login_failure
    [where self = "sample_wrapper unreachable_client 2" and rt = sample_runtime
       and key = "PStr ''abc''" and val = "PBytes ''xyz''"
       and s = "\<lparr>trace = [], ledger = ()\<rparr>"]
    retry_only_on_login_failure
    [where self = "sample_wrapper timeout_after_login_client 2" and rt = sample_runtime
       and key = "PStr ''abc''" and val = "PBytes ''xyz''"
       and s = "\<lparr>trace = [], ledger = ()\<rparr>"]
  by (simp add: notarize_body_def login_def verified_get_def verified_set_def
      except_RpcError_def bind_io_def lift_io_def return_io_def perform_def encode_def
      dict_contains_def sample_runtime_def sample_wrapper_def unreachable_client_def
      timeout_after_login_client_def)


section \<open>The retry bound\<close>

text \<open>
  C3. Let the retry counter be positive and the backoff not negative, and let every
  attempt fail with an RPC failure whose details contain \<^verbatim>\<open>Connection timed out\<close>.
  Then \<^verbatim>\<open>notarize\<close> returns, raising the failure \<open>e\<close> of its last attempt (the
  attempt run from \<open>s_last\<close>, after which only the backoff follows). The part of the
  trace the call adds shows exactly \<^verbatim>\<open>max_retries\<close> attempts, each followed by one
  sleep of \<^verbatim>\<open>retry_timeout\<close> seconds: the sleeps stand between consecutive attempts,
  and one more follows the last attempt before the failure is raised. The same holds
  for \<^verbatim>\<open>authenticate\<close>.
\<close>

theorem retry_exhausts_max_retries:
  assumes "0 < max_retries self" and "0 \<le> retry_timeout self"
  shows
  "((\<forall>s. \<exists>e s'. notarize_body rt key val self s = (Inl e, s') \<and>
        retryable [''Connection timed out''] e) \<longrightarrow>
    (\<exists>e s_last s_fail evs.
       notarize self rt key val s =
         Some (Inl e, backoff ''notarize'' (retry_timeout self) s_fail) \<and>
       notarize_body rt key val self s_last = (Inl e, s_fail) \<and>
       retryable [''Connection timed out''] e \<and>
       trace (backoff ''notarize'' (retry_timeout self) s_fail) = trace s @ evs \<and>
       attempts_and_sleeps evs =
         concat (replicate (nat (max_retries self))
           [RpcLogin (username self) (password self) (database self),
            Sleep (retry_timeout self)]))) \<and>
   ((\<forall>s. \<exists>e s'. authenticate_body rt key self s = (Inl e, s') \<and>
        retryable [''Connection timed out''] e) \<longrightarrow>
    (\<exists>e s_last s_fail evs.
       authenticate self rt key s =
         Some (Inl e, backoff ''authenticate'' (retry_timeout self) s_fail) \<and>
       authenticate_body rt key self s_last = (Inl e, s_fail) \<and>
       retryable [''Connection timed out''] e \<and>
       trace (backoff ''authenticate'' (retry_timeout self) s_fail) = trace s @ evs \<and>
       attempts_and_sleeps evs =
         concat (replicate (nat (max_retries self))
           [RpcLogin (username self) (password self) (database self),
            Sleep (retry_timeout self)])))"
proof -
  define n where "n = nat (max_retries self - 1)"
  have n: "max_retries self = int (Suc n)"
    using assms(1) by (simp add: n_def)
  have nat_n: "nat (max_retries self) = Suc n" using n by simp
  have notarize_run:
    "notarize self rt key val s =
       wrapped [''Connection timed out''] ''notarize'' (notarize_body rt key val) self
         (int (Suc n)) BareException s"
    by (simp add: notarize_def retry_def n)
  have authenticate_run:
    "authenticate self rt key s =
       wrapped [''Connection timed out''] ''authenticate'' (authenticate_body rt key) self
         (int (Suc n)) BareException s"
    by (simp add: authenticate_def retry_def n)
  show ?thesis
    unfolding nat_n notarize_run authenticate_run
  proof (intro conjI impI)
    assume always: "\<forall>s. \<exists>e s'. notarize_body rt key val self s = (Inl e, s') \<and>
        retryable [''Connection timed out''] e"
    show "\<exists>e s_last s_fail evs.
       wrapped [''Connection timed out''] ''notarize'' (notarize_body rt key val) self
         (int (Suc n)) BareException s =
         Some (Inl e, backoff ''notarize'' (retry_timeout self) s_fail) \<and>
       notarize_body rt key val self s_last = (Inl e, s_fail) \<and>
       retryable [''Connection timed out''] e \<and>
       trace (backoff ''notarize'' (retry_timeout self) s_fail) = trace s @ evs \<and>
       attempts_and_sleeps evs =
         concat (replicate (Suc n)
           [RpcLogin (username self) (password self) (database self),
            Sleep (retry_timeout self)])"
    proof (rule wrapped_exhausts [where func = "notarize_body rt key val" and self = self])
      fix s0 show "\<exists>e s'. notarize_body rt key val self s0 = (Inl e, s') \<and>
          retryable [''Connection timed out''] e"
        using always by blast
    next
      fix s0 e s' assume "notarize_body rt key val self s0 = (Inl e, s')"
      then show "\<exists>evs. trace s' = trace s0 @ evs \<and> attempts_and_sleeps evs =
          [RpcLogin (username self) (password self) (database self)]"
        by (rule notarize_body_shape)
    next
      show "0 \<le> retry_timeout self" by (rule assms(2))
    qed
  next
    assume always: "\<forall>s. \<exists>e s'. authenticate_body rt key self s = (Inl e, s') \<and>
        retryable [''Connection timed out''] e"
    show "\<exists>e s_last s_fail evs.
       wrapped [''Connection timed out''] ''authenticate'' (authenticate_body rt key) self
         (int (Suc n)) BareException s =
         Some (Inl e, backoff ''authenticate'' (retry_timeout self) s_fail) \<and>
       authenticate_body rt key self s_last = (Inl e, s_fail) \<and>
       retryable [''Connection timed out''] e \<and>
       trace (backoff ''authenticate'' (retry_timeout self) s_fail) = trace s @ evs \<and>
       attempts_and_sleeps evs =
         concat (replicate (Suc n)
           [RpcLogin (username self) (password self) (database self),
            Sleep (retry_timeout self)])"
    proof (rule wrapped_exhausts [where func = "authenticate_body rt key" and self = self])
      fix s0 show "\<exists>e s'. authenticate_body rt key self s0 = (Inl e, s') \<and>
          retryable [''Connection timed out''] e"
        using always by blast
    next
      fix s0 e s' assume "authenticate_body rt key self s0 = (Inl e, s')"
      then show "\<exists>evs. trace s' = trace s0 @ evs \<and> attempts_and_sleeps evs =
          [RpcLogin (username self) (password self) (database self)]"
        by (rule authenticate_body_shape)
    next
      show "0 \<le> retry_timeout self" by (rule assms(2))
    qed
  qed
qed


theorem retry_exhausts_max_retries_witness:
  "0 < max_retries (sample_wrapper unreachable_client 2) \<and>
   0 \<le> retry_timeout (sample_wrapper unreachable_client 2) \<and>
   (\<forall>s. \<exists>e s'. notarize_body sample_runtime (PStr ''abc'') (PBytes ''xyz'')
        (sample_wrapper unreachable_client 2) s = (Inl e, s') \<and>
      retryable [''Connection timed out''] e) \<and>
   (\<exists>e s_last s_fail evs.
      notarize (sample_wrapper unreachable_client 2) sample_runtime (PStr ''abc'')
          (PBytes ''xyz'') \<lparr>trace = [], ledger = ()\<rparr> =
        Some (Inl e, backoff ''notarize'' 10 s_fail) \<and>
      notarize_body sample_runtime (PStr ''abc'') (PBytes ''xyz'')
          (sample_wrapper unreachable_client 2) s_last = (Inl e, s_fail) \<and>
      retryable [''Connection timed out''] e \<and>
      trace (backoff ''notarize'' 10 s_fail) = [] @ evs \<and>
      attempts_and_sleeps evs =
        [RpcLogin ''immudb'' ''immudb'' ''defaultdb'', Sleep 10,
         RpcLogin ''immudb'' ''immudb'' ''defaultdb'', Sleep 10])"
proof -
  let ?w = "sample_wrapper unreachable_client 2"
  have pos: "0 < max_retries ?w" and nonneg: "0 \<le> retry_timeout ?w"
    by (simp_all add: sample_wrapper_def)
  have always: "\<forall>s. \<exists>e s'. notarize_body sample_runtime (PStr ''abc'') (PBytes ''xyz'') ?w s =
      (Inl e, s') \<and> retryable [''Connection timed out''] e"
    by (simp add: notarize_body_def login_def bind_io_def lift_io_def perform_def encode_def
        sample_wrapper_def unreachable_client_def)
  have two: "concat (replicate (nat (max_retries ?w))
       [RpcLogin (username ?w) (password ?w) (database ?w), Sleep (retry_timeout ?w)]) =
     [RpcLogin ''immudb'' ''immudb'' ''defaultdb'', Sleep 10,
      RpcLogin ''immudb'' ''immudb'' ''defaultdb'', Sleep 10]"
    by (simp add: sample_wrapper_def numeral_2_eq_2)
  have timeout: "retry_timeout ?w = 10" by (simp add: sample_wrapper_def)
  have "\<exists>e s_last s_fail evs.
      notarize ?w sample_runtime (PStr ''abc'') (PBytes ''xyz'') \<lparr>trace = [], ledger = ()\<rparr> =
        Some (Inl e, backoff ''notarize'' (retry_timeout ?w) s_fail) \<and>
      notarize_body sample_runtime (PStr ''abc'') (PBytes ''xyz'') ?w s_last = (Inl e, s_fail) \<and>
      retryable [''Connection timed out''] e \<and>
      trace (backoff ''notarize'' (retry_timeout ?w) s_fail) =
        trace \<lparr>trace = [], ledger = ()\<rparr> @ evs \<and>
      attempts_and_sleeps evs =
        concat (replicate (nat (max_retries ?w))
          [RpcLogin (username ?w) (password ?w) (database ?w), Sleep (retry_timeout ?w)])"
    using retry_exhausts_max_retries [OF pos nonneg, where rt = sample_runtime
        and key = "PStr ''abc''" and val = "PBytes ''xyz''"
        and s = "\<lparr>trace = [], ledger = ()\<rparr>"] always
    by blast
  then have "\<exists>e s_last s_fail evs.
      notarize ?w sample_runtime (PStr ''abc'') (PBytes ''xyz'') \<lparr>trace = [], ledger = ()\<rparr> =
        Some (Inl e, backoff ''notarize'' 10 s_fail) \<and>
      notarize_body sample_runtime (PStr ''abc'') (PBytes ''xyz'') ?w s_last = (Inl e, s_fail) \<and>
      retryable [''Connection timed out''] e \<and>
      trace (backoff ''notarize'' 10 s_fail) = [] @ evs \<and>
      attempts_and_sleeps evs =
        [RpcLogin ''immudb'' ''immudb'' ''defaultdb'', Sleep 10,
         RpcLogin ''immudb'' ''immudb'' ''defaultdb'', Sleep 10]"
    unfolding two by (simp add: timeout)
  then show ?thesis using pos nonneg always by blast
qed

section \<open>A failure that is not retried\<close>

text \<open>
  C4. When the retry counter is not zero and the first attempt of \<^verbatim>\<open>notarize\<close> or
  \<^verbatim>\<open>authenticate\<close> raises an RPC failure whose details hold no recognized signature
  (no details, empty details, or details without \<^verbatim>\<open>Connection timed out\<close>), the call
  raises that failure at once, in the world the attempt left: the trace has gained one
  login, the one attempt, and no sleep.
\<close>

theorem unrecognized_failure_not_retried:
  assumes "max_retries self \<noteq> 0" and "is_RpcError e"
    and "\<not> retryable [''Connection timed out''] e"
  shows
  "(notarize_body rt key val self s = (Inl e, s1) \<longrightarrow>
      notarize self rt key val s = Some (Inl e, s1) \<and>
      (\<exists>evs. trace s1 = trace s @ evs \<and>
         attempts_and_sleeps evs =
           [RpcLogin (username self) (password self) (database self)])) \<and>
   (authenticate_body rt key self s = (Inl e, s1) \<longrightarrow>
      authenticate self rt key s = Some (Inl e, s1) \<and>
      (\<exists>evs. trace s1 = trace s @ evs \<and>
         attempts_and_sleeps evs =
           [RpcLogin (username self) (password self) (database self)]))"
proof (intro conjI impI)
  assume a: "notarize_body rt key val self s = (Inl e, s1)"
  show "notarize self rt key val s = Some (Inl e, s1)"
    unfolding notarize_def retry_def
    using wrapped_raise [where func = "notarize_body rt key val" and self = self and s = s
        and e = e and ?s1.0 = s1] assms a
    by simp
  show "\<exists>evs. trace s1 = trace s @ evs \<and>
      attempts_and_sleeps evs = [RpcLogin (username self) (password self) (database self)]"
    using a by (rule notarize_body_shape)
next
  assume a: "authenticate_body rt key self s = (Inl e, s1)"
  show "authenticate self rt key s = Some (Inl e, s1)"
    unfolding authenticate_def retry_def
    using wrapped_raise [where func = "authenticate_body rt key" and self = self and s = s
        and e = e and ?s1.0 = s1] assms a
    by simp
  show "\<exists>evs. trace s1 = trace s @ evs \<and>
      attempts_and_sleeps evs = [RpcLogin (username self) (password self) (database self)]"
    using a by (rule authenticate_body_shape)
qed

theorem unrecognized_failure_not_retried_witness:
  "max_retries (sample_wrapper rejecting_client 5) \<noteq> 0 \<and>
   is_RpcError (InactiveRpcError (Some ''invalid user name or password'')) \<and>
   \<not> retryable [''Connection timed out'']
       (InactiveRpcError (Some ''invalid user name or password'')) \<and>
   notarize_body sample_runtime (PStr ''abc'') (PBytes ''xyz'')
       (sample_wrapper rejecting_client 5) \<lparr>trace = [], ledger = ()\<rparr> =
     (Inl (InactiveRpcError (Some ''invalid user name or password'')),
      \<lparr>trace = [RpcLogin ''immudb'' ''immudb'' ''defaultdb''], ledger = ()\<rparr>) \<and>
   notarize (sample_wrapper rejecting_client 5) sample_runtime (PStr ''abc'') (PBytes ''xyz'')
       \<lparr>trace = [], ledger = ()\<rparr> =
     Some (Inl (InactiveRpcError (Some ''invalid user name or password'')),
       \<lparr>trace = [RpcLogin ''immudb'' ''immudb'' ''defaultdb''], ledger = ()\<rparr>) \<and>
   authenticate (sample_wrapper rejecting_client 5) sample_runtime (PStr ''abc'')
       \<lparr>trace = [], ledger = ()\<rparr> =
     Some (Inl (InactiveRpcError (Some ''invalid user name or password'')),
       \<lparr>trace = [RpcLogin ''immudb'' ''immudb'' ''defaultdb''], ledger = ()\<rparr>)"
proof -
  let ?w = "sample_wrapper rejecting_client 5"
  let ?e = "InactiveRpcError (Some ''invalid user name or password'')"
  let ?s1 = "\<lparr>trace = [RpcLogin ''immudb'' ''immudb'' ''defaultdb''], ledger = ()\<rparr>"
  have h1: "max_retries ?w \<noteq> 0" by (simp add: sample_wrapper_def)
  have h2: "is_RpcError ?e" by simp
  have h3: "\<not> retryable [''Connection timed out''] ?e" by simp
  have n: "notarize_body sample_runtime (PStr ''abc'') (PBytes ''xyz'') ?w
      \<lparr>trace = [], ledger = ()\<rparr> = (Inl ?e, ?s1)"
    by (simp add: notarize_body_def login_def bind_io_def lift_io_def perform_def encode_def
        sample_wrapper_def rejecting_client_def)
  have a: "authenticate_body sample_runtime (PStr ''abc'') ?w
      \<lparr>trace = [], ledger = ()\<rparr> = (Inl ?e, ?s1)"
    by (simp add: authenticate_body_def login_def bind_io_def lift_io_def perform_def encode_def
        sample_wrapper_def rejecting_client_def)
  show ?thesis
    using unrecognized_failure_not_retried [OF h1 h2 h3, where rt = sample_runtime
        and key = "PStr ''abc''" and val = "PBytes ''xyz''"
        and s = "\<lparr>trace = [], ledger = ()\<rparr>" and ?s1.0 = ?s1]
      h1 h2 h3 n a
    by simp
qed

section \<open>A retry counter of zero\<close>

text \<open>
  The loop counts down from \<^verbatim>\<open>max_retries\<close> and stops at 0 only: from a negative
  counter it never gets there, so when every attempt fails with a retryable error the
  decorated function does not return.
\<close>

lemma wrapped_negative_aux:
  "wrapped ds name func self n last_exc s = Some y \<Longrightarrow> n < 0 \<Longrightarrow>
   (\<forall>s. \<exists>e s'. func self s = (Inl e, s') \<and> retryable ds e) \<Longrightarrow>
   0 \<le> retry_timeout self \<Longrightarrow> False"
proof (induction ds name func self n last_exc s y rule: wrapped.raw_induct [rotated 1, consumes 1])
  case (1 wrapped' ds name func self n last_exc s y)
  obtain e s1 where f: "func self s = (Inl e, s1)" and r: "retryable ds e"
    using "1.prems"(2) by blast
  have "wrapped' ds name func self (n - 1) e (backoff name (retry_timeout self) s1) = Some y"
    using "1.hyps" "1.prems"(1,3) f r
    by (simp add: bind_io_def logger_error_def sleep_def backoff_def)
  then show ?case
    using "1.IH" [of ds name func self "n - 1" e "backoff name (retry_timeout self) s1" y]
      "1.prems"
    by simp
qed

lemma wrapped_negative_never_returns:
  assumes "n < 0" and "\<forall>s. \<exists>e s'. func self s = (Inl e, s') \<and> retryable ds e"
    and "0 \<le> retry_timeout self"
  shows "wrapped ds name func self n last_exc s = None"
proof (cases "wrapped ds name func self n last_exc s")
  case None
  then show ?thesis .
next
  case (Some y)
  then have False
    using wrapped_negative_aux [where func = func and self = self and n = n and ds = ds
        and name = name and last_exc = last_exc and s = s and y = y] assms
    by blast
  then show ?thesis ..
qed

text \<open>
  C10, as the code has it. With \<^verbatim>\<open>max_retries\<close> equal to 0 the loop of the retry
  policy is never entered: \<^verbatim>\<open>notarize\<close> and \<^verbatim>\<open>authenticate\<close> raise the bare
  \<^verbatim>\<open>Exception()\<close> and leave the world as it was, so no login and no ledger operation
  has been attempted.
\<close>

theorem zero_max_retries_raises_bare_exception:
  "max_retries self = 0 \<longrightarrow>
     notarize self rt key val s = Some (Inl BareException, s) \<and>
     authenticate self rt key s = Some (Inl BareException, s)"
  by (simp add: notarize_def authenticate_def retry_def wrapped_zero)

theorem zero_max_retries_raises_bare_exception_witness:
  "max_retries (sample_wrapper memory_client 0) = 0 \<and>
   notarize (sample_wrapper memory_client 0) sample_runtime (PStr ''abc'') (PBytes ''xyz'')
       \<lparr>trace = [], ledger = []\<rparr> =
     Some (Inl BareException, \<lparr>trace = [], ledger = []\<rparr>) \<and>
   authenticate (sample_wrapper memory_client 0) sample_runtime (PStr ''abc'')
       \<lparr>trace = [], ledger = []\<rparr> =
     Some (Inl BareException, \<lparr>trace = [], ledger = []\<rparr>)"
  using zero_max_retries_raises_bare_exception
    [where self = "sample_wrapper memory_client 0" and rt = sample_runtime
       and key = "PStr ''abc''" and val = "PBytes ''xyz''"
       and s = "\<lparr>trace = [], ledger = []\<rparr>"]
  by (simp add: sample_wrapper_def)

text \<open>
  A negative \<^verbatim>\<open>max_retries\<close> is true for \<^verbatim>\<open>while max_retries:\<close>, so the loop is
  entered: with \<^verbatim>\<open>max_retries = -1\<close> on a working ledger, \<^verbatim>\<open>notarize\<close> logs in,
  writes, reads back and returns the record.
\<close>

theorem negative_max_retries_enters_loop:
  "max_retries (sample_wrapper memory_client (- 1)) \<le> 0 \<and>
   notarize (sample_wrapper memory_client (- 1)) sample_runtime (PStr ''abc'') (PBytes ''true'')
       \<lparr>trace = [], ledger = []\<rparr> =
     Some (Inr [(''key'', PStr ''abc''), (''value'', PBool True), (''verified'', PBool True)],
       \<lparr>trace = [RpcLogin ''immudb'' ''immudb'' ''defaultdb'', RpcUseDatabase ''defaultdb'',
                 RpcVerifiedSet ''abc'' ''true'', RpcVerifiedGet ''abc'' None],
        ledger = [(''abc'', ''true'')]\<rparr>)"
  by (simp add: notarize_def retry_def notarize_body_def login_def verified_get_def
      verified_set_def except_RpcError_def bind_io_def lift_io_def return_io_def perform_def
      encode_def to_dict_def bind_exn_def bytes_item_def dict_get_def dict_display_def
      dict_contains_def sample_runtime_def sample_loads_def sample_wrapper_def memory_client_def wrapped.simps)



section \<open>Size formatting: the loop and the reference outputs\<close>

lemma bitlen_lower: "0 < n \<Longrightarrow> 2 ^ nat (bitlen n - 1) \<le> n"
  using bitlen_bounds [of n] by simp

lemma bitlen_upper: "0 < n \<Longrightarrow> n < 2 ^ nat (bitlen n)"
  using bitlen_bounds [of n] by simp

lemma bitlen_pos: "0 < n \<Longrightarrow> 0 < bitlen n"
  using bitlen_nonneg [of n] bitlen_eq_zero_iff [of n] by linarith

lemma floor_log2_bounds:
  assumes "0 < x"
  shows "2 powi (floor_log2 x) \<le> x \<and> x < 2 powi (floor_log2 x + 1)"
proof (cases "1 \<le> x")
  case True
  define n where "n = \<lfloor>x\<rfloor>"
  have npos: "0 < n" using True by (simp add: n_def)
  have e: "floor_log2 x = bitlen n - 1" using True by (simp add: floor_log2_def n_def)
  have b: "0 < bitlen n" using npos by (rule bitlen_pos)
  have "(2::rat) powi (bitlen n - 1) = of_int (2 ^ nat (bitlen n - 1))"
    using b by (simp add: power_int_def)
  also have "\<dots> \<le> of_int n" using bitlen_lower [OF npos] by (simp only: of_int_le_iff)
  also have "\<dots> \<le> x" by (simp add: n_def)
  finally have lo: "2 powi (floor_log2 x) \<le> x" by (simp add: e)
  have "x < of_int (n + 1)" by (simp add: n_def) linarith
  also have "\<dots> \<le> of_int (2 ^ nat (bitlen n))"
    using bitlen_upper [OF npos] by (simp only: of_int_le_iff)
  also have "\<dots> = (2::rat) powi (bitlen n)" using b by (simp add: power_int_def)
  finally have "x < 2 powi (floor_log2 x + 1)" by (simp add: e)
  with lo show ?thesis by simp
next
  case False
  define n where "n = \<lceil>1 / x\<rceil> - 1"
  have x1: "x < 1" using False by simp
  have inv: "1 < 1 / x" using assms x1 by simp
  have npos: "0 < n" using inv by (simp add: n_def)
  have e: "floor_log2 x = - bitlen n" using False by (simp add: floor_log2_def n_def)
  have b: "0 < bitlen n" using npos by (rule bitlen_pos)
  have "1 / x \<le> of_int (n + 1)" by (simp add: n_def)
  also have "\<dots> \<le> of_int (2 ^ nat (bitlen n))"
    using bitlen_upper [OF npos] by (simp only: of_int_le_iff)
  also have "\<dots> = (2::rat) ^ nat (bitlen n)" by simp
  finally have "1 / x \<le> 2 ^ nat (bitlen n)" .
  then have "1 \<le> x * 2 ^ nat (bitlen n)" using assms by (simp add: field_simps)
  then have lo: "2 powi (- bitlen n) \<le> x"
    using b by (simp add: power_int_def field_simps)
  have "(2::rat) ^ nat (bitlen n - 1) = of_int (2 ^ nat (bitlen n - 1))" by simp
  also have "\<dots> \<le> of_int n" using bitlen_lower [OF npos] by (simp only: of_int_le_iff)
  also have "\<dots> < 1 / x" by (simp add: n_def) linarith
  finally have "x * 2 ^ nat (bitlen n - 1) < 1" using assms by (simp add: field_simps)
  then have hi: "x < 2 powi (- bitlen n + 1)"
    using b by (cases "bitlen n = 1") (simp_all add: power_int_def field_simps nat_diff_distrib)
  show ?thesis using lo hi by (simp add: e)
qed


lemma round_half_even_of_int: "round_half_even (of_int n) = n"
  by (simp add: round_half_even_def)

lemma two_powi_less_imp: "(2::rat) powi a < 2 powi b \<Longrightarrow> a < b"
  using power_int_increasing [of b a "2::rat"] by (cases "a < b") auto

lemma round_to_double_exact:
  fixes m s :: int
  assumes m: "0 < m" "m < 2 ^ 53"
    and x: "x = of_int m * 2 powi s"
    and normal: "2 powi (- 1022) \<le> x"
  shows "round_to_double x = x"
proof -
  have xpos: "0 < x" using m by (simp add: x zero_less_power_int)
  define e where "e = floor_log2 x"
  have lo: "2 powi e \<le> x" and hi: "x < 2 powi (e + 1)"
    using floor_log2_bounds [OF xpos] by (simp_all add: e_def)
  have "(2::rat) powi (- 1022) < 2 powi (e + 1)" using normal hi by (rule le_less_trans)
  then have e_ge: "- 1022 \<le> e" using two_powi_less_imp [of "- 1022" "e + 1"] by simp
  have "x < of_int (2 ^ 53) * 2 powi s"
    unfolding x using m(2) by (intro mult_strict_right_mono) (simp_all add: zero_less_power_int)
  also have "\<dots> = 2 powi (53 + s)" by (simp add: power_int_add)
  finally have "(2::rat) powi e < 2 powi (53 + s)" using lo by simp
  then have e_le: "e < 53 + s" by (rule two_powi_less_imp)
  define d where "d = nat (s - e + 52)"
  have d: "int d = s - e + 52" using e_le by (simp add: d_def)
  have "(2::rat) powi s = 2 powi (int d + (e - 52))" by (simp add: d)
  also have "\<dots> = 2 ^ d * 2 powi (e - 52)" by (simp add: power_int_add)
  finally have split: "(2::rat) powi s = 2 ^ d * 2 powi (e - 52)" .
  have q: "x / 2 powi (e - 52) = of_int (m * 2 ^ d)"
    by (simp add: x split)
  have "round_to_double x = of_int (round_half_even (x / 2 powi (e - 52))) * 2 powi (e - 52)"
    using xpos e_ge by (simp add: round_to_double_def Let_def e_def max_def)
  also have "\<dots> = of_int (m * 2 ^ d) * 2 powi (e - 52)"
    by (simp only: q round_half_even_of_int)
  also have "\<dots> = x" by (simp add: x split)
  finally show ?thesis .
qed


lemma round_half_even_fraction:
  assumes "0 < b"
  shows "round_half_even (of_int a / of_int b) =
     (if 2 * (a mod b) < b then a div b
      else if b < 2 * (a mod b) then a div b + 1
      else if even (a div b) then a div b else a div b + 1)"
proof -
  have fl: "\<lfloor>(of_int a / of_int b :: rat)\<rfloor> = a div b" by (simp add: floor_divide_of_int_eq)
  have "a = b * (a div b) + a mod b" by simp
  then have "(of_int a :: rat) = of_int (b * (a div b) + a mod b)" by (rule arg_cong)
  also have "\<dots> = of_int b * of_int (a div b) + of_int (a mod b)"
    by (simp only: of_int_add of_int_mult)
  finally have fr: "(of_int a / of_int b :: rat) - of_int (a div b) = of_int (a mod b) / of_int b"
    using assms by (simp add: field_simps)
  have c1: "(of_int (a mod b) / of_int b < (1 / 2 :: rat)) = (2 * (a mod b) < b)"
  proof -
    have "(of_int (a mod b) / of_int b < (1 / 2 :: rat)) =
        ((of_int (2 * (a mod b)) :: rat) < of_int b)"
      using assms by (simp add: field_simps)
    then show ?thesis by (simp only: of_int_less_iff)
  qed
  have c2: "((1 / 2 :: rat) < of_int (a mod b) / of_int b) = (b < 2 * (a mod b))"
  proof -
    have "((1 / 2 :: rat) < of_int (a mod b) / of_int b) =
        ((of_int b :: rat) < of_int (2 * (a mod b)))"
      using assms by (simp add: field_simps)
    then show ?thesis by (simp only: of_int_less_iff)
  qed
  show ?thesis
    unfolding round_half_even_def Let_def by (simp only: fl fr c1 c2)
qed


lemma round_to_double_0: "round_to_double 0 = 0"
  by (simp add: round_to_double_def)

lemma one_ge_two_powi_min: "(2::rat) powi (- 1022) \<le> 1"
  using power_int_increasing [of "- 1022" 0 "2::rat"] by simp

lemma float_of_int_exact:
  assumes "0 \<le> v" and "v < 2 ^ 53"
  shows "float_of_int v = Inr (PyFloat False (of_int v))"
proof (cases "v = 0")
  case True
  then show ?thesis by (simp add: float_of_int_def round_to_double_0)
next
  case False
  then have pos: "0 < v" using assms(1) by simp
  have one: "(1::rat) \<le> of_int v" using pos by simp
  have r: "round_to_double (of_int v) = of_int v"
    using pos assms(2) one_ge_two_powi_min one
    by (intro round_to_double_exact [where m = v and s = 0]) simp_all
  have "(of_int v :: rat) < of_int (2 ^ 53)" using assms(2) by (simp only: of_int_less_iff)
  also have "\<dots> \<le> 2 ^ 1024" by simp
  finally have "\<not> (2 ^ 1024 \<le> (of_int v :: rat))" by simp
  then show ?thesis using pos by (simp add: float_of_int_def r Let_def)
qed

lemma float_of_int_1024: "float_of_int 1024 = Inr (PyFloat False 1024)"
  using float_of_int_exact [of 1024] by simp

lemma int_truediv_exact:
  fixes m :: int and t :: nat
  assumes m: "0 < m" "m < 2 ^ 53" and v: "v = m * 2 ^ t"
    and big: "1024 \<le> v" and small: "v < 2 ^ 1024"
  shows "int_truediv v 1024 = Inr (PyFloat False (of_int v / 1024))"
proof -
  have pos: "0 < v" using big by simp
  have x: "(of_int v / 1024 :: rat) = of_int m * 2 powi (int t - 10)"
    by (simp add: v power_int_diff)
  have one: "(1::rat) \<le> of_int v / 1024" using big by simp
  have r: "round_to_double (of_int v / 1024) = of_int v / 1024"
    using m x one one_ge_two_powi_min
    by (intro round_to_double_exact [where m = m and s = "int t - 10"]) simp_all
  have "(of_int v :: rat) < of_int (2 ^ 1024)" using small by (simp only: of_int_less_iff)
  then have "(of_int v / 1024 :: rat) < 2 ^ 1024" by simp
  then have "\<not> (2 ^ 1024 \<le> (of_int v / 1024 :: rat))" by simp
  then show ?thesis using pos by (simp add: int_truediv_def r Let_def)
qed

lemma float_truediv_exact:
  fixes m s :: int
  assumes m: "0 < m" "m < 2 ^ 53" and x: "x = of_int m * 2 powi s" and big: "1024 \<le> x"
  shows "float_truediv (PyFloat False x) 1024 = Inr (PyFloat False (x / 1024))"
proof -
  have x': "x / 1024 = of_int m * 2 powi (s - 10)" by (simp add: x power_int_diff)
  have one: "1 \<le> x / 1024" using big by simp
  have r: "round_to_double (x / 1024) = x / 1024"
    using m x' one one_ge_two_powi_min
    by (intro round_to_double_exact [where m = m and s = "s - 10"]) simp_all
  show ?thesis by (simp add: float_truediv_def float_of_int_1024 r)
qed

lemma size_units_exact:
  fixes m s :: int
  assumes "0 < m" "m < 2 ^ 53" "x = of_int m * 2 powi s"
    and "k \<le> length units" and "1024 ^ k \<le> x"
    and "k = length units \<or> x < 1024 ^ Suc k"
  shows "size_units (NFloat (PyFloat False x)) 1024 suffix' units =
     Inr (format_2f (PyFloat False (x / 1024 ^ k)) @ '' '' @ (units @ [''Y'']) ! k @ suffix')"
  using assms
proof (induction units arbitrary: x s k)
  case Nil
  then show ?case by simp
next
  case (Cons u us)
  show ?case
  proof (cases k)
    case 0
    then have "x < 1024" using Cons.prems by simp
    then show ?thesis using 0 by simp
  next
    case (Suc k')
    have "(1024::rat) ^ 1 \<le> 1024 ^ Suc k'" by (rule power_increasing) simp_all
    then have "(1024::rat) \<le> 1024 ^ Suc k'" by simp
    also have "\<dots> \<le> x" using Cons.prems(5) Suc by simp
    finally have big: "1024 \<le> x" .
    have div: "float_truediv (PyFloat False x) 1024 = Inr (PyFloat False (x / 1024))"
      using Cons.prems(1,2,3) big by (rule float_truediv_exact)
    have x': "x / 1024 = of_int m * 2 powi (s - 10)"
      by (simp add: Cons.prems(3) power_int_diff)
    have lo: "1024 ^ k' \<le> x / 1024" using Cons.prems(5) Suc by simp
    have hi: "k' = length us \<or> x / 1024 < 1024 ^ Suc k'"
      using Cons.prems(6) Suc by auto
    have len: "k' \<le> length us" using Cons.prems(4) Suc by simp
    have ih: "size_units (NFloat (PyFloat False (x / 1024))) 1024 suffix' us =
        Inr (format_2f (PyFloat False (x / 1024 / 1024 ^ k')) @ '' '' @
             (us @ [''Y'']) ! k' @ suffix')"
      using Cons.IH [OF Cons.prems(1,2) x' len lo hi] .
    have "\<not> x < 1024" using big by simp
    then show ?thesis using Suc div ih by simp
  qed
qed

lemma round_half_even_numeral_div:
  "round_half_even (numeral a / numeral b) =
     (if 2 * (numeral a mod numeral b) < (numeral b :: int) then numeral a div numeral b
      else if (numeral b :: int) < 2 * (numeral a mod numeral b)
        then numeral a div numeral b + 1
      else if even (numeral a div numeral b :: int) then numeral a div numeral b
      else numeral a div numeral b + 1)"
  using round_half_even_fraction [of "numeral b" "numeral a"] by simp

lemma round_half_even_numeral: "round_half_even (numeral a) = numeral a"
  using round_half_even_of_int [of "numeral a"] by simp

lemma round_half_even_0: "round_half_even 0 = 0"
  using round_half_even_of_int [of 0] by simp

lemma get_size_format_exact:
  fixes m :: int and t :: nat
  assumes m: "0 \<le> m" "m < 2 ^ 53" and v: "v = m * 2 ^ t" and small: "v < 2 ^ 1024"
    and k: "k \<le> 8" and lo: "k = 0 \<or> 1024 ^ k \<le> v" and hi: "k = 8 \<or> v < 1024 ^ Suc k"
  shows "get_size_format v 1024 suffix' =
     Inr (format_2f (PyFloat False (of_int v / 1024 ^ k)) @ '' '' @
          [[], ''K'', ''M'', ''G'', ''T'', ''P'', ''E'', ''Z'', ''Y''] ! k @ suffix')"
proof (cases k)
  case 0
  then have lt: "v < 1024" using hi by simp
  have nonneg: "0 \<le> v" using m(1) by (simp add: v)
  have "float_of_int v = Inr (PyFloat False (of_int v))"
    using nonneg lt by (intro float_of_int_exact) simp_all
  then show ?thesis using 0 lt by (simp add: get_size_format_def)
next
  case (Suc k')
  have "(1024::int) ^ 1 \<le> 1024 ^ Suc k'" by (rule power_increasing) simp_all
  then have "(1024::int) \<le> 1024 ^ Suc k'" by simp
  also have "\<dots> \<le> v" using lo Suc by simp
  finally have big: "1024 \<le> v" .
  have mpos: "0 < m" using big m(1) v by (cases "m = 0") simp_all
  have div: "int_truediv v 1024 = Inr (PyFloat False (of_int v / 1024))"
    using mpos m(2) v big small by (rule int_truediv_exact)
  have x: "(of_int v / 1024 :: rat) = of_int m * 2 powi (int t - 10)"
    by (simp add: v power_int_diff)
  have "(of_int (1024 ^ Suc k') :: rat) \<le> of_int v"
    using lo Suc by (simp only: of_int_le_iff) simp
  then have lo': "(1024::rat) ^ k' \<le> of_int v / 1024" by simp
  have hi': "k' = length [''K'', ''M'', ''G'', ''T'', ''P'', ''E'', ''Z''] \<or>
      (of_int v / 1024 :: rat) < 1024 ^ Suc k'"
  proof (cases "k = 8")
    case True
    then show ?thesis using Suc by simp
  next
    case False
    then have "v < 1024 ^ Suc k" using hi by simp
    then have "(of_int v :: rat) < of_int (1024 ^ Suc k)" by (simp only: of_int_less_iff)
    then show ?thesis using Suc by simp
  qed
  have len: "k' \<le> length [''K'', ''M'', ''G'', ''T'', ''P'', ''E'', ''Z'']"
    using k Suc by simp
  have loop: "size_units (NFloat (PyFloat False (of_int v / 1024))) 1024 suffix'
        [''K'', ''M'', ''G'', ''T'', ''P'', ''E'', ''Z''] =
      Inr (format_2f (PyFloat False (of_int v / 1024 / 1024 ^ k')) @ '' '' @
           ([''K'', ''M'', ''G'', ''T'', ''P'', ''E'', ''Z''] @ [''Y'']) ! k' @ suffix')"
    using size_units_exact [OF mpos m(2) x len lo' hi'] .
  have "\<not> v < 1024" using big by simp
  then show ?thesis using Suc div loop by (simp add: get_size_format_def)
qed

lemma size_units_scale_while:
  "size_units v factor suffix' units =
     (case scale_while v factor units of
        Inl e \<Rightarrow> Inl e
      | Inr (v', unit) \<Rightarrow>
          (case format_num_2f v' of
             Inl e \<Rightarrow> Inl e
           | Inr t \<Rightarrow> Inr (t @ '' '' @ unit @ suffix')))"
  by (induction units arbitrary: v) (auto split: sum.splits)

text \<open>
  C9. \<^verbatim>\<open>get_size_format\<close> is the loop the specification describes for
  \<^verbatim>\<open>scaleBytes\<close>: over the prefixes \<^verbatim>\<open>''\<close>, K, M, G, T, P, E, Z it divides by
  the factor while the value is at least the factor, then formats with two decimals, with
  the prefix Y when no named prefix is left. For the factor 1024 and a size that a
  double holds exactly (\<open>m \<sqdot> 2\<^sup>t\<close> with \<open>m < 2\<^sup>5\<^sup>3\<close>, so every size below \<open>2\<^sup>5\<^sup>3\<close>), the
  result is the exact quotient \<open>v / 1024\<^sup>k\<close> in two decimals with the \<open>k\<close>-th prefix,
  where \<open>1024\<^sup>k \<le> v < 1024\<^sup>k\<^sup>+\<^sup>1\<close> (or \<open>k = 8\<close>, the prefix Y, from \<open>1024\<^sup>8\<close> on). The
  reference outputs are \<^verbatim>\<open>1.20 MB\<close> for 1253656, \<^verbatim>\<open>0.00 B\<close> for 0 and
  \<^verbatim>\<open>1.00 KB\<close> for 1024.
\<close>

theorem get_size_format_scales_bytes:
  fixes m :: int and t :: nat
  shows
  "get_size_format v factor suffix' = scaleBytes v factor suffix' \<and>
   (0 \<le> m \<and> m < 2 ^ 53 \<and> v = m * 2 ^ t \<and> v < 2 ^ 1024 \<and> k \<le> 8 \<and>
    (k = 0 \<or> 1024 ^ k \<le> v) \<and> (k = 8 \<or> v < 1024 ^ Suc k) \<longrightarrow>
      get_size_format v 1024 suffix' =
        Inr (format_2f (PyFloat False (of_int v / 1024 ^ k)) @ '' '' @
             [[], ''K'', ''M'', ''G'', ''T'', ''P'', ''E'', ''Z'', ''Y''] ! k @ suffix')) \<and>
   get_size_format 1253656 1024 ''B'' = Inr ''1.20 MB'' \<and>
   get_size_format 0 1024 ''B'' = Inr ''0.00 B'' \<and>
   get_size_format 1024 1024 ''B'' = Inr ''1.00 KB''"
proof (intro conjI impI)
  show "get_size_format v factor suffix' = scaleBytes v factor suffix'"
    by (simp add: get_size_format_def scaleBytes_def size_units_scale_while)
next
  assume "0 \<le> m \<and> m < 2 ^ 53 \<and> v = m * 2 ^ t \<and> v < 2 ^ 1024 \<and> k \<le> 8 \<and>
    (k = 0 \<or> 1024 ^ k \<le> v) \<and> (k = 8 \<or> v < 1024 ^ Suc k)"
  then show "get_size_format v 1024 suffix' =
        Inr (format_2f (PyFloat False (of_int v / 1024 ^ k)) @ '' '' @
             [[], ''K'', ''M'', ''G'', ''T'', ''P'', ''E'', ''Z'', ''Y''] ! k @ suffix')"
    using get_size_format_exact [of m v t k suffix'] by blast
next
  show "get_size_format 1253656 1024 ''B'' = Inr ''1.20 MB''"
    using get_size_format_exact [where v = 1253656 and m = 1253656 and t = 0 and k = 2
        and suffix' = "''B''"]
    by (simp add: format_2f_def round_half_even_numeral_div Let_def)
next
  show "get_size_format 0 1024 ''B'' = Inr ''0.00 B''"
    using get_size_format_exact [where v = 0 and m = 0 and t = 0 and k = 0
        and suffix' = "''B''"]
    by (simp add: format_2f_def round_half_even_0 Let_def)
next
  show "get_size_format 1024 1024 ''B'' = Inr ''1.00 KB''"
    using get_size_format_exact [where v = 1024 and m = 1024 and t = 0 and k = 1
        and suffix' = "''B''"]
    by (simp add: format_2f_def round_half_even_numeral Let_def)
qed

theorem get_size_format_scales_bytes_witness:
  "(0::int) \<le> 1 \<and> (1::int) < 2 ^ 53 \<and> (2::int) ^ 80 = 1 * 2 ^ 80 \<and>
   (2::int) ^ 80 < 2 ^ 1024 \<and> (8::nat) \<le> 8 \<and> (1024::int) ^ 8 \<le> 2 ^ 80 \<and>
   get_size_format (2 ^ 80) 1024 ''B'' = Inr ''1.00 YB'' \<and>
   (0::int) \<le> 1253656678 \<and> (1253656678::int) < 2 ^ 53 \<and>
   (1024::int) ^ 3 \<le> 1253656678 \<and> (1253656678::int) < 1024 ^ Suc 3 \<and>
   get_size_format 1253656678 1024 ''B'' = Inr ''1.17 GB''"
  using get_size_format_scales_bytes [where v = "2 ^ 80" and m = 1 and t = 80 and k = 8
      and suffix' = "''B''", THEN conjunct2, THEN conjunct1]
    get_size_format_scales_bytes [where v = 1253656678 and m = 1253656678 and t = 0
      and k = 3 and suffix' = "''B''", THEN conjunct2, THEN conjunct1]
  by (simp add: format_2f_def round_half_even_numeral round_half_even_numeral_div Let_def)


section \<open>The payload and its metadata\<close>

lemma map_of_foldl_dict_set:
  "map_of (foldl (\<lambda>d (k, v). dict_set d k v) d items) = map_of d ++ map_of (rev items)"
proof (induction items arbitrary: d)
  case Nil
  then show ?case by simp
next
  case (Cons kv items)
  obtain k v where kv: "kv = (k, v)" by (cases kv)
  have "map_of (foldl (\<lambda>d (k, v). dict_set d k v) d (kv # items)) =
     map_of (dict_set d k v) ++ map_of (rev items)"
    by (simp add: kv Cons.IH)
  also have "\<dots> = (map_of d)(k \<mapsto> v) ++ map_of (rev items)"
    by (simp only: map_of_dict_set)
  also have "\<dots> = map_of d ++ map_of (rev (kv # items))"
    by (simp add: kv)
  finally show ?case .
qed

lemma map_of_dict_display: "map_of (dict_display items) = map_of (rev items)"
  by (simp add: dict_display_def map_of_foldl_dict_set)

lemma map_of_rev_distinct: "distinct (map fst xs) \<Longrightarrow> map_of (rev xs) = map_of xs"
proof (induction xs)
  case Nil
  then show ?case by simp
next
  case (Cons x xs)
  obtain k v where x: "x = (k, v)" by (cases x)
  have fresh: "dom [k \<mapsto> v] \<inter> dom (map_of xs) = {}"
    using Cons.prems by (simp add: x dom_map_of_conv_image_fst)
  have "map_of (rev (x # xs)) = [k \<mapsto> v] ++ map_of (rev xs)" by (simp add: x)
  also have "\<dots> = [k \<mapsto> v] ++ map_of xs" using Cons by simp
  also have "\<dots> = map_of xs ++ [k \<mapsto> v]" using fresh by (rule map_add_comm)
  also have "\<dots> = map_of (x # xs)" by (simp add: x)
  finally show ?case .
qed

lemma metadata_of_file:
  assumes "distinct (map fst um)"
  shows "map_of (dict_display (default_metadata @ um)) = map_of default_metadata ++ map_of um"
  using assms by (simp add: map_of_dict_display map_of_rev_distinct default_metadata_def)

lemma metadata_of_git_repo:
  assumes "distinct (map fst um)"
  shows "map_of (dict_display ((''git'', git) # default_metadata @ um)) =
     map_of default_metadata ++ [''git'' \<mapsto> git] ++ map_of um"
proof -
  have "map_of (dict_display ((''git'', git) # default_metadata @ um)) =
      [''git'' \<mapsto> git] ++ map_of default_metadata ++ map_of um"
    using assms by (simp add: map_of_dict_display map_of_rev_distinct default_metadata_def)
  moreover have "[''git'' \<mapsto> git] ++ map_of default_metadata =
      map_of default_metadata ++ [''git'' \<mapsto> git]"
    by (rule map_add_comm) (simp add: default_metadata_def)
  ultimately show ?thesis by simp
qed

lemma notarize_file_payload:
  assumes "hash_file rt fs file ''sha256'' 1048576 None = Inr h"
    and "get_file_size fs file = Inr n" and "get_size_format n 1024 ''B'' = Inr sz"
  shows "notarize_file self rt fs file user_metadata s =
     notarize self rt (PStr h)
       (PDict [(''Name'', PStr (path_name rt file)), (''Kind'', PStr ''file''),
               (''Size'', PStr sz), (''Hash'', PStr h), (''Signer'', PStr (username self)),
               (''Metadata'', PDict (dict_display (default_metadata @
                  (case user_metadata of None \<Rightarrow> [] | Some d \<Rightarrow> d))))]) s"
  using assms by (simp add: notarize_file_def bind_exn_def)

lemma notarize_git_repo_payload:
  assumes "extract_git_metadata rt fs repo_path = Inr gm"
    and "dict_item gm ''git'' = Inr git" and "dict_item gm ''Name'' = Inr nm"
    and "json_dumps rt git = Inr dumped" and "hash_content rt (PStr dumped) = Inr h"
    and "get_directory_size fs repo_path = Inr n" and "get_size_format n 1024 ''B'' = Inr sz"
  shows "notarize_git_repo self rt fs repo_path user_metadata s =
     notarize self rt (PStr h)
       (PDict [(''Name'', nm), (''Kind'', PStr ''git''),
               (''Size'', PStr sz), (''Hash'', PStr h), (''Signer'', PStr (username self)),
               (''Metadata'', PDict (dict_display ((''git'', git) # default_metadata @
                  (case user_metadata of None \<Rightarrow> [] | Some d \<Rightarrow> d))))]) s"
  using assms by (simp add: notarize_git_repo_def bind_exn_def)

text \<open>
  C6. \<^verbatim>\<open>notarize_file\<close> and \<^verbatim>\<open>notarize_git_repo\<close> hand \<^verbatim>\<open>notarize\<close> a record
  whose top-level fields \<^verbatim>\<open>Name\<close>, \<^verbatim>\<open>Kind\<close>, \<^verbatim>\<open>Size\<close>, \<^verbatim>\<open>Hash\<close> and
  \<^verbatim>\<open>Signer\<close> are the computed ones whatever the caller's metadata holds; the caller's
  metadata only enters the \<^verbatim>\<open>Metadata\<close> mapping. As a mapping, \<^verbatim>\<open>Metadata\<close> is
  the default metadata, overridden by the git block under the key \<^verbatim>\<open>git\<close> (for a
  repository), overridden by the caller's metadata. (The code writes the git block
  before the default metadata; their keys differ, so the mapping is the same.)
\<close>

theorem metadata_merge_precedence:
  assumes "distinct (map fst um)"
  shows
  "(hash_file rt fs file ''sha256'' 1048576 None = Inr h \<and> get_file_size fs file = Inr n \<and>
    get_size_format n 1024 ''B'' = Inr sz \<longrightarrow>
      notarize_file self rt fs file (Some um) s =
        notarize self rt (PStr h)
          (PDict [(''Name'', PStr (path_name rt file)), (''Kind'', PStr ''file''),
                  (''Size'', PStr sz), (''Hash'', PStr h),
                  (''Signer'', PStr (username self)),
                  (''Metadata'', PDict (dict_display (default_metadata @ um)))]) s) \<and>
   map_of (dict_display (default_metadata @ um)) = map_of default_metadata ++ map_of um \<and>
   (extract_git_metadata rt fs repo_path = Inr gm \<and> dict_item gm ''git'' = Inr git \<and>
    dict_item gm ''Name'' = Inr nm \<and> json_dumps rt git = Inr dumped \<and>
    hash_content rt (PStr dumped) = Inr h' \<and> get_directory_size fs repo_path = Inr n' \<and>
    get_size_format n' 1024 ''B'' = Inr sz' \<longrightarrow>
      notarize_git_repo self rt fs repo_path (Some um) s =
        notarize self rt (PStr h')
          (PDict [(''Name'', nm), (''Kind'', PStr ''git''),
                  (''Size'', PStr sz'), (''Hash'', PStr h'),
                  (''Signer'', PStr (username self)),
                  (''Metadata'',
                     PDict (dict_display ((''git'', git) # default_metadata @ um)))]) s) \<and>
   map_of (dict_display ((''git'', git) # default_metadata @ um)) =
     map_of default_metadata ++ [''git'' \<mapsto> git] ++ map_of um \<and>
   map_of (dict_display ((''git'', git) # default_metadata @ um)) =
     map_of (dict_display (default_metadata @ (''git'', git) # um))"
proof (intro conjI impI)
  assume "hash_file rt fs file ''sha256'' 1048576 None = Inr h \<and>
    get_file_size fs file = Inr n \<and> get_size_format n 1024 ''B'' = Inr sz"
  then have 1: "hash_file rt fs file ''sha256'' 1048576 None = Inr h"
    and 2: "get_file_size fs file = Inr n" and 3: "get_size_format n 1024 ''B'' = Inr sz"
    by simp_all
  show "notarize_file self rt fs file (Some um) s =
        notarize self rt (PStr h)
          (PDict [(''Name'', PStr (path_name rt file)), (''Kind'', PStr ''file''),
                  (''Size'', PStr sz), (''Hash'', PStr h),
                  (''Signer'', PStr (username self)),
                  (''Metadata'', PDict (dict_display (default_metadata @ um)))]) s"
    using notarize_file_payload [OF 1 2 3, where user_metadata = "Some um"] by simp
next
  show "map_of (dict_display (default_metadata @ um)) = map_of default_metadata ++ map_of um"
    using assms by (rule metadata_of_file)
next
  assume "extract_git_metadata rt fs repo_path = Inr gm \<and> dict_item gm ''git'' = Inr git \<and>
    dict_item gm ''Name'' = Inr nm \<and> json_dumps rt git = Inr dumped \<and>
    hash_content rt (PStr dumped) = Inr h' \<and> get_directory_size fs repo_path = Inr n' \<and>
    get_size_format n' 1024 ''B'' = Inr sz'"
  then have 1: "extract_git_metadata rt fs repo_path = Inr gm"
    and 2: "dict_item gm ''git'' = Inr git" and 3: "dict_item gm ''Name'' = Inr nm"
    and 4: "json_dumps rt git = Inr dumped" and 5: "hash_content rt (PStr dumped) = Inr h'"
    and 6: "get_directory_size fs repo_path = Inr n'"
    and 7: "get_size_format n' 1024 ''B'' = Inr sz'"
    by simp_all
  show "notarize_git_repo self rt fs repo_path (Some um) s =
        notarize self rt (PStr h')
          (PDict [(''Name'', nm), (''Kind'', PStr ''git''),
                  (''Size'', PStr sz'), (''Hash'', PStr h'),
                  (''Signer'', PStr (username self)),
                  (''Metadata'',
                     PDict (dict_display ((''git'', git) # default_metadata @ um)))]) s"
    using notarize_git_repo_payload [OF 1 2 3 4 5 6 7, where user_metadata = "Some um"]
    by simp
next
  show "map_of (dict_display ((''git'', git) # default_metadata @ um)) =
     map_of default_metadata ++ [''git'' \<mapsto> git] ++ map_of um"
    using assms by (rule metadata_of_git_repo)
next
  have "map_of (dict_display (default_metadata @ (''git'', git) # um)) =
      map_of default_metadata ++ [''git'' \<mapsto> git] ++ map_of um"
    using assms by (simp add: map_of_dict_display map_of_rev_distinct default_metadata_def)
  then show "map_of (dict_display ((''git'', git) # default_metadata @ um)) =
     map_of (dict_display (default_metadata @ (''git'', git) # um))"
    using metadata_of_git_repo [OF assms, of git] by simp
qed

lemma hexdigest_feed_hasher:
  "buff_size \<noteq> 0 \<Longrightarrow> hexdigest (feed_hasher buff_size h fd) = fst h (snd h @ fd)"
proof (induction buff_size h fd rule: feed_hasher.induct)
  case (1 buff_size hasher fd)
  show ?case
  proof (cases "fst (fd_read buff_size fd) = []")
    case True
    then have "fd = []" using "1.prems" by (auto simp: fd_read_def split: if_splits)
    then show ?thesis
      by (subst feed_hasher.simps) (simp add: fd_read_def hexdigest_def)
  next
    case False
    obtain buff rest where r: "fd_read buff_size fd = (buff, rest)" by fastforce
    have ne: "length buff \<noteq> 0" using False r by simp
    have app: "buff @ rest = fd" using r by (auto simp: fd_read_def split: if_splits)
    have "hexdigest (feed_hasher buff_size hasher fd) =
        hexdigest (feed_hasher buff_size (hasher_update hasher buff) rest)"
      using r ne by (subst feed_hasher.simps) simp
    also have "\<dots> = fst (hasher_update hasher buff) (snd (hasher_update hasher buff) @ rest)"
      using "1.IH" [OF r [symmetric] ne "1.prems"] .
    also have "\<dots> = fst hasher (snd hasher @ fd)"
      by (simp add: hasher_update_def app)
    finally show ?thesis .
  qed
qed

lemma hash_file_digest:
  assumes "hashlib_new rt hash_type = Inr digest" and "open_rb fs file_path = Inr content"
    and "buff_size \<noteq> 0"
  shows "hash_file rt fs file_path hash_type buff_size None = Inr (digest content)"
  using assms by (simp add: hash_file_def bind_exn_def get_hasher_def hexdigest_feed_hasher)

lemma hash_file_sample:
  "hash_file sample_runtime sample_filesystem ''/tmp/bash.spec'' ''sha256'' 1048576 None =
     Inr ''sha256:Name: bash''"
  using hash_file_digest [where rt = sample_runtime and fs = sample_filesystem
      and hash_type = "''sha256''" and file_path = "''/tmp/bash.spec''"
      and buff_size = 1048576 and content = "''Name: bash''"
      and digest = "\<lambda>bs. ''sha256'' @ '':'' @ bs"]
  by (simp add: sample_runtime_def sample_filesystem_def)

lemma get_size_format_10: "get_size_format 10 1024 ''B'' = Inr ''10.00 B''"
  using get_size_format_exact [where v = 10 and m = 10 and t = 0 and k = 0
      and suffix' = "''B''"]
  by (simp add: format_2f_def round_half_even_numeral Let_def)

lemma get_size_format_8192: "get_size_format 8192 1024 ''B'' = Inr ''8.00 KB''"
  using get_size_format_exact [where v = 8192 and m = 8192 and t = 0 and k = 1
      and suffix' = "''B''"]
  by (simp add: format_2f_def round_half_even_numeral Let_def)

lemma extract_full_clone:
  "extract_git_metadata sample_runtime sample_filesystem ''/src/full'' =
     Inr [(''Name'', PStr ''git@git.almalinux.org:rpms/bash.git@ccccccc''),
          (''git'',
           PDict [(''Author'', PDict [(''Email'', PStr ''packager@almalinux.org''),
                                     (''Name'', PStr ''Packager''),
                                     (''When'', PStr ''2023-11-14T22:13:20+0000'')]),
                  (''Commit'', PStr ''cccccccccccccccccccccccccccccccccccccccc''),
                  (''Committer'', PDict [(''Email'', PStr ''packager@almalinux.org''),
                                        (''Name'', PStr ''Packager''),
                                        (''When'', PStr ''2023-11-14T22:13:20+0000'')]),
                  (''Message'', PStr ''release''),
                  (''PGPSignature'', PNone),
                  (''Parents'', PList [PStr ''bbbbbbbbbbbbbbbbbbbbbbbbbbbbbbbbbbbbbbbb'',
                                      PStr ''aaaaaaaaaaaaaaaaaaaaaaaaaaaaaaaaaaaaaaaa'']),
                  (''Tree'', PStr ''3333333333333333333333333333333333333333'')])]"
  by (simp add: extract_git_metadata_def bind_exn_def sample_filesystem_def full_clone_def
      commit_a_def commit_b_def commit_c_def sample_actor_def sample_runtime_def
      iter_parents_def actor_dict_def)

lemma extract_shallow_clone:
  "extract_git_metadata sample_runtime sample_filesystem ''/src/shallow'' =
     Inr [(''Name'', PStr ''git@git.almalinux.org:rpms/bash.git@ccccccc''),
          (''git'',
           PDict [(''Author'', PDict [(''Email'', PStr ''packager@almalinux.org''),
                                     (''Name'', PStr ''Packager''),
                                     (''When'', PStr ''2023-11-14T22:13:20+0000'')]),
                  (''Commit'', PStr ''cccccccccccccccccccccccccccccccccccccccc''),
                  (''Committer'', PDict [(''Email'', PStr ''packager@almalinux.org''),
                                        (''Name'', PStr ''Packager''),
                                        (''When'', PStr ''2023-11-14T22:13:20+0000'')]),
                  (''Message'', PStr ''release''),
                  (''PGPSignature'', PNone),
                  (''Parents'', PList []),
                  (''Tree'', PStr ''3333333333333333333333333333333333333333'')])]"
  by (simp add: extract_git_metadata_def bind_exn_def sample_filesystem_def shallow_clone_def
      commit_c_def sample_actor_def sample_runtime_def iter_parents_def actor_dict_def)

theorem metadata_merge_precedence_witness:
  "distinct (map fst [(''sbom_api_ver'', PStr ''9.9''), (''Name'', PStr ''evil'')]) \<and>
   hash_file sample_runtime sample_filesystem ''/tmp/bash.spec'' ''sha256'' 1048576 None =
     Inr ''sha256:Name: bash'' \<and>
   get_file_size sample_filesystem ''/tmp/bash.spec'' = Inr 10 \<and>
   get_size_format 10 1024 ''B'' = Inr ''10.00 B'' \<and>
   notarize_file (sample_wrapper memory_client 5) sample_runtime sample_filesystem
       ''/tmp/bash.spec'' (Some [(''sbom_api_ver'', PStr ''9.9''), (''Name'', PStr ''evil'')])
       \<lparr>trace = [], ledger = []\<rparr> =
     notarize (sample_wrapper memory_client 5) sample_runtime (PStr ''sha256:Name: bash'')
       (PDict [(''Name'', PStr ''bash.spec''), (''Kind'', PStr ''file''),
               (''Size'', PStr ''10.00 B''), (''Hash'', PStr ''sha256:Name: bash''),
               (''Signer'', PStr ''immudb''),
               (''Metadata'',
                  PDict [(''sbom_api_ver'', PStr ''9.9''), (''Name'', PStr ''evil'')])])
       \<lparr>trace = [], ledger = []\<rparr> \<and>
   (\<exists>gm git nm dumped h n sz.
      extract_git_metadata sample_runtime sample_filesystem ''/src/full'' = Inr gm \<and>
      dict_item gm ''git'' = Inr git \<and> dict_item gm ''Name'' = Inr nm \<and>
      json_dumps sample_runtime git = Inr dumped \<and>
      hash_content sample_runtime (PStr dumped) = Inr h \<and>
      get_directory_size sample_filesystem ''/src/full'' = Inr n \<and>
      get_size_format n 1024 ''B'' = Inr sz \<and>
      notarize_git_repo (sample_wrapper memory_client 5) sample_runtime sample_filesystem
          ''/src/full'' (Some [(''sbom_api_ver'', PStr ''9.9''), (''Name'', PStr ''evil'')])
          \<lparr>trace = [], ledger = []\<rparr> =
        notarize (sample_wrapper memory_client 5) sample_runtime (PStr h)
          (PDict [(''Name'', nm), (''Kind'', PStr ''git''), (''Size'', PStr sz),
                  (''Hash'', PStr h), (''Signer'', PStr ''immudb''),
                  (''Metadata'',
                     PDict [(''git'', git), (''sbom_api_ver'', PStr ''9.9''),
                            (''Name'', PStr ''evil'')])])
          \<lparr>trace = [], ledger = []\<rparr>)"
proof -
  let ?um = "[(''sbom_api_ver'', PStr ''9.9''), (''Name'', PStr ''evil'')]"
  let ?w = "sample_wrapper memory_client 5"
  let ?s = "\<lparr>trace = [], ledger = []\<rparr> :: (string \<times> string) list world"
  have d: "distinct (map fst ?um)" by simp
  have size10: "get_file_size sample_filesystem ''/tmp/bash.spec'' = Inr 10"
    by (simp add: get_file_size_def sample_filesystem_def)
  have file_part: "notarize_file ?w sample_runtime sample_filesystem ''/tmp/bash.spec''
      (Some ?um) ?s =
     notarize ?w sample_runtime (PStr ''sha256:Name: bash'')
       (PDict [(''Name'', PStr (path_name sample_runtime ''/tmp/bash.spec'')),
               (''Kind'', PStr ''file''), (''Size'', PStr ''10.00 B''),
               (''Hash'', PStr ''sha256:Name: bash''), (''Signer'', PStr (username ?w)),
               (''Metadata'', PDict (dict_display (default_metadata @ ?um)))]) ?s"
    using metadata_merge_precedence [where um = ?um and rt = sample_runtime
        and fs = sample_filesystem and h = "''sha256:Name: bash''" and n = 10
        and sz = "''10.00 B''" and self = ?w and s = ?s, OF d, THEN conjunct1]
      hash_file_sample size10 get_size_format_10
    by blast
  obtain git where gm: "extract_git_metadata sample_runtime sample_filesystem ''/src/full'' =
      Inr [(''Name'', PStr ''git@git.almalinux.org:rpms/bash.git@ccccccc''), (''git'', git)]"
    using extract_full_clone by blast
  let ?gm = "[(''Name'', PStr ''git@git.almalinux.org:rpms/bash.git@ccccccc''), (''git'', git)]"
  have g1: "dict_item ?gm ''git'' = Inr git" by (simp add: dict_item_def dict_get_def)
  have g2: "dict_item ?gm ''Name'' =
      Inr (PStr ''git@git.almalinux.org:rpms/bash.git@ccccccc'')"
    by (simp add: dict_item_def dict_get_def)
  have g3: "json_dumps sample_runtime git = Inr (sample_dumps git)"
    by (simp add: sample_runtime_def)
  have g4: "hash_content sample_runtime (PStr (sample_dumps git)) =
      Inr (''sha256:'' @ sample_dumps git)"
    by (simp add: hash_content_def bind_exn_def get_hasher_def hexdigest_def
        hasher_update_def sample_runtime_def)
  have g5: "get_directory_size sample_filesystem ''/src/full'' = Inr 8192"
    by (simp add: get_directory_size_def sample_filesystem_def)
  have git_part: "notarize_git_repo ?w sample_runtime sample_filesystem ''/src/full''
      (Some ?um) ?s =
     notarize ?w sample_runtime (PStr (''sha256:'' @ sample_dumps git))
       (PDict [(''Name'', PStr ''git@git.almalinux.org:rpms/bash.git@ccccccc''),
               (''Kind'', PStr ''git''), (''Size'', PStr ''8.00 KB''),
               (''Hash'', PStr (''sha256:'' @ sample_dumps git)),
               (''Signer'', PStr (username ?w)),
               (''Metadata'',
                  PDict (dict_display ((''git'', git) # default_metadata @ ?um)))]) ?s"
    using metadata_merge_precedence [where um = ?um and rt = sample_runtime
        and fs = sample_filesystem and gm = ?gm and git = git
        and repo_path = "''/src/full''" and dumped = "sample_dumps git" and n' = 8192
        and sz' = "''8.00 KB''" and self = ?w and s = ?s,
        OF d, THEN conjunct2, THEN conjunct2, THEN conjunct1]
      gm g1 g2 g3 g4 g5 get_size_format_8192
    by blast
  have md1: "dict_display (default_metadata @ ?um) = ?um"
    by (simp add: dict_display_def default_metadata_def)
  have md2: "dict_display ((''git'', git) # default_metadata @ ?um) = (''git'', git) # ?um"
    by (simp add: dict_display_def default_metadata_def)
  have names: "path_name sample_runtime ''/tmp/bash.spec'' = ''bash.spec''"
      "username ?w = ''immudb''"
    by (simp_all add: sample_runtime_def sample_wrapper_def)
  show ?thesis
    using d hash_file_sample size10 get_size_format_10 file_part git_part
      gm g1 g2 g3 g4 g5 get_size_format_8192
    unfolding md1 md2 names by blast
qed


section \<open>The parents of a commit and the key of a repository\<close>

lemma git_block_of_repo:
  assumes "Repo fs repo_path = Inr r" and "remote_url r = Inr u" and "head_commit r = Inr c"
  shows "bind_exn (extract_git_metadata rt fs repo_path) (\<lambda>gm. dict_item gm ''git'') =
     Inr (PDict [(''Author'', actor_dict rt (author c) (authored_datetime c)),
                 (''Commit'', PStr (hexsha c)),
                 (''Committer'', actor_dict rt (committer c) (committed_datetime c)),
                 (''Message'', PStr (message c)),
                 (''PGPSignature'', (case gpgsig c of None \<Rightarrow> PNone | Some sig \<Rightarrow> PStr sig)),
                 (''Parents'',
                    PList (map (\<lambda>parent. PStr (hexsha parent))
                      (drop 1 (rev_list r (hexsha c))))),
                 (''Tree'', PStr (tree_hexsha c))])"
  using assms
  by (simp add: extract_git_metadata_def bind_exn_def dict_item_def dict_get_def
      iter_parents_def split: prod.splits)

lemma same_history_same_git_block:
  assumes "Repo fs p1 = Inr r1" and "remote_url r1 = Inr u1" and "head_commit r1 = Inr c"
    and "Repo fs p2 = Inr r2" and "remote_url r2 = Inr u2" and "head_commit r2 = Inr c"
    and "rev_list r1 (hexsha c) = rev_list r2 (hexsha c)"
  shows "bind_exn (extract_git_metadata rt fs p1) (\<lambda>gm. dict_item gm ''git'') =
     bind_exn (extract_git_metadata rt fs p2) (\<lambda>gm. dict_item gm ''git'')"
  using git_block_of_repo [OF assms(1,2,3), of rt] git_block_of_repo [OF assms(4,5,6), of rt]
    assms(7)
  by simp

lemma authenticate_git_repo_key:
  "authenticate_git_repo self rt fs repo_path s =
     (case bind_exn (bind_exn (extract_git_metadata rt fs repo_path)
                       (\<lambda>gm. dict_item gm ''git''))
             (\<lambda>git. bind_exn (json_dumps rt git) (\<lambda>dumped. hash_content rt (PStr dumped))) of
        Inl e \<Rightarrow> Some (Inl e, s)
      | Inr key \<Rightarrow> authenticate self rt (PStr key) s)"
  by (simp add: authenticate_git_repo_def bind_exn_def split: sum.splits)

text \<open>
  C7, at a repository whose HEAD \<open>commit_c\<close> has the one parent \<open>commit_b\<close>, itself the
  child of \<open>commit_a\<close>. The commit object records one direct parent, the sha of
  \<open>commit_b\<close>; the \<^verbatim>\<open>Parents\<close> field that \<^verbatim>\<open>extract_git_metadata\<close> builds from
  \<^verbatim>\<open>commit.iter_parents()\<close> holds the shas of \<open>commit_b\<close> and of \<open>commit_a\<close>: every
  ancestor that \<^verbatim>\<open>git rev-list\<close> reports, not the direct parents.
\<close>

theorem parents_field_lists_all_ancestors:
  "Repo sample_filesystem ''/src/full'' = Inr full_clone \<and>
   head_commit full_clone = Inr commit_c \<and>
   parents commit_c = [''bbbbbbbbbbbbbbbbbbbbbbbbbbbbbbbbbbbbbbbb''] \<and>
   rev_list full_clone (hexsha commit_c) = [commit_c, commit_b, commit_a] \<and>
   extract_git_metadata sample_runtime sample_filesystem ''/src/full'' =
     Inr [(''Name'', PStr ''git@git.almalinux.org:rpms/bash.git@ccccccc''),
          (''git'',
           PDict [(''Author'', PDict [(''Email'', PStr ''packager@almalinux.org''),
                                     (''Name'', PStr ''Packager''),
                                     (''When'', PStr ''2023-11-14T22:13:20+0000'')]),
                  (''Commit'', PStr ''cccccccccccccccccccccccccccccccccccccccc''),
                  (''Committer'', PDict [(''Email'', PStr ''packager@almalinux.org''),
                                        (''Name'', PStr ''Packager''),
                                        (''When'', PStr ''2023-11-14T22:13:20+0000'')]),
                  (''Message'', PStr ''release''),
                  (''PGPSignature'', PNone),
                  (''Parents'', PList [PStr ''bbbbbbbbbbbbbbbbbbbbbbbbbbbbbbbbbbbbbbbb'',
                                      PStr ''aaaaaaaaaaaaaaaaaaaaaaaaaaaaaaaaaaaaaaaa'']),
                  (''Tree'', PStr ''3333333333333333333333333333333333333333'')])]"
  by (simp add: extract_full_clone)
     (simp add: sample_filesystem_def full_clone_def commit_c_def)

text \<open>
  C8, at two clones of one commit from one remote, a full clone and a clone of depth 1.
  Both report the same remote URL and the same HEAD commit. The key of each is the digest
  of the serialized git block, and the block holds the \<^verbatim>\<open>Parents\<close> list of every
  ancestor the clone has: two for the full clone, none for the shallow one. So the two
  calls of \<^verbatim>\<open>authenticate_git_repo\<close> look up different keys.
\<close>

theorem clones_of_one_commit_differ_in_key:
  \<open>remote_url full_clone = remote_url shallow_clone \<and>
   head_commit full_clone = head_commit shallow_clone \<and>
   authenticate_git_repo (sample_wrapper memory_client 5) sample_runtime sample_filesystem
       ''/src/full'' \<lparr>trace = [], ledger = []\<rparr> =
     Some (Inr [(''error'', PStr ''Traceback (most recent call last): ...'')],
       \<lparr>trace =
          [RpcLogin ''immudb'' ''immudb'' ''defaultdb'', RpcUseDatabase ''defaultdb'',
           RpcVerifiedGet
             (''sha256:{Author:{Email:<packager@almalinux.org>,Name:<Packager>,'' @
              ''When:<2023-11-14T22:13:20+0000>,},'' @
              ''Commit:<cccccccccccccccccccccccccccccccccccccccc>,'' @
              ''Committer:{Email:<packager@almalinux.org>,Name:<Packager>,'' @
              ''When:<2023-11-14T22:13:20+0000>,},Message:<release>,PGPSignature:null,'' @
              ''Parents:[<bbbbbbbbbbbbbbbbbbbbbbbbbbbbbbbbbbbbbbbb>,'' @
              ''<aaaaaaaaaaaaaaaaaaaaaaaaaaaaaaaaaaaaaaaa>,],'' @
              ''Tree:<3333333333333333333333333333333333333333>,}'')
             None],
        ledger = []\<rparr>) \<and>
   authenticate_git_repo (sample_wrapper memory_client 5) sample_runtime sample_filesystem
       ''/src/shallow'' \<lparr>trace = [], ledger = []\<rparr> =
     Some (Inr [(''error'', PStr ''Traceback (most recent call last): ...'')],
       \<lparr>trace =
          [RpcLogin ''immudb'' ''immudb'' ''defaultdb'', RpcUseDatabase ''defaultdb'',
           RpcVerifiedGet
             (''sha256:{Author:{Email:<packager@almalinux.org>,Name:<Packager>,'' @
              ''When:<2023-11-14T22:13:20+0000>,},'' @
              ''Commit:<cccccccccccccccccccccccccccccccccccccccc>,'' @
              ''Committer:{Email:<packager@almalinux.org>,Name:<Packager>,'' @
              ''When:<2023-11-14T22:13:20+0000>,},Message:<release>,PGPSignature:null,'' @
              ''Parents:[],'' @
              ''Tree:<3333333333333333333333333333333333333333>,}'')
             None],
        ledger = []\<rparr>)\<close>
proof -
  let ?w = "sample_wrapper memory_client 5"
  let ?s = "\<lparr>trace = [], ledger = []\<rparr> :: (string \<times> string) list world"
  let ?full =
    "''sha256:{Author:{Email:<packager@almalinux.org>,Name:<Packager>,'' @
     ''When:<2023-11-14T22:13:20+0000>,},'' @
     ''Commit:<cccccccccccccccccccccccccccccccccccccccc>,'' @
     ''Committer:{Email:<packager@almalinux.org>,Name:<Packager>,'' @
     ''When:<2023-11-14T22:13:20+0000>,},Message:<release>,PGPSignature:null,'' @
     ''Parents:[<bbbbbbbbbbbbbbbbbbbbbbbbbbbbbbbbbbbbbbbb>,'' @
     ''<aaaaaaaaaaaaaaaaaaaaaaaaaaaaaaaaaaaaaaaa>,],'' @
     ''Tree:<3333333333333333333333333333333333333333>,}''"
  let ?shallow =
    "''sha256:{Author:{Email:<packager@almalinux.org>,Name:<Packager>,'' @
     ''When:<2023-11-14T22:13:20+0000>,},'' @
     ''Commit:<cccccccccccccccccccccccccccccccccccccccc>,'' @
     ''Committer:{Email:<packager@almalinux.org>,Name:<Packager>,'' @
     ''When:<2023-11-14T22:13:20+0000>,},Message:<release>,PGPSignature:null,'' @
     ''Parents:[],'' @
     ''Tree:<3333333333333333333333333333333333333333>,}''"
  have same: "remote_url full_clone = remote_url shallow_clone"
      "head_commit full_clone = head_commit shallow_clone"
    by (simp_all add: full_clone_def shallow_clone_def)
  have digest: "\<And>git. bind_exn (json_dumps sample_runtime git)
        (\<lambda>dumped. hash_content sample_runtime (PStr dumped)) =
      Inr (''sha256:'' @ sample_dumps git)"
    by (simp add: bind_exn_def hash_content_def get_hasher_def hexdigest_def
        hasher_update_def sample_runtime_def)
  have key_full: "bind_exn (bind_exn (extract_git_metadata sample_runtime sample_filesystem
        ''/src/full'') (\<lambda>gm. dict_item gm ''git''))
      (\<lambda>git. bind_exn (json_dumps sample_runtime git)
         (\<lambda>dumped. hash_content sample_runtime (PStr dumped))) = Inr ?full"
    unfolding digest by (simp add: extract_full_clone bind_exn_def dict_item_def dict_get_def)
  have key_shallow: "bind_exn (bind_exn (extract_git_metadata sample_runtime sample_filesystem
        ''/src/shallow'') (\<lambda>gm. dict_item gm ''git''))
      (\<lambda>git. bind_exn (json_dumps sample_runtime git)
         (\<lambda>dumped. hash_content sample_runtime (PStr dumped))) = Inr ?shallow"
    unfolding digest
    by (simp add: extract_shallow_clone bind_exn_def dict_item_def dict_get_def)
  have lookup: "\<And>key. authenticate ?w sample_runtime (PStr key) ?s =
      Some (Inr [(''error'', PStr ''Traceback (most recent call last): ...'')],
        \<lparr>trace = [RpcLogin ''immudb'' ''immudb'' ''defaultdb'', RpcUseDatabase ''defaultdb'',
                  RpcVerifiedGet key None], ledger = []\<rparr>)"
    by (simp add: authenticate_def retry_def authenticate_body_def login_def verified_get_def
        except_RpcError_def bind_io_def lift_io_def perform_def encode_def
        sample_runtime_def sample_wrapper_def memory_client_def wrapped.simps)
  have run_full: "authenticate_git_repo ?w sample_runtime sample_filesystem ''/src/full'' ?s =
      Some (Inr [(''error'', PStr ''Traceback (most recent call last): ...'')],
        \<lparr>trace = [RpcLogin ''immudb'' ''immudb'' ''defaultdb'', RpcUseDatabase ''defaultdb'',
                  RpcVerifiedGet ?full None], ledger = []\<rparr>)"
    by (simp only: authenticate_git_repo_key key_full sum.case lookup)
  have run_shallow:
    "authenticate_git_repo ?w sample_runtime sample_filesystem ''/src/shallow'' ?s =
      Some (Inr [(''error'', PStr ''Traceback (most recent call last): ...'')],
        \<lparr>trace = [RpcLogin ''immudb'' ''immudb'' ''defaultdb'', RpcUseDatabase ''defaultdb'',
                  RpcVerifiedGet ?shallow None], ledger = []\<rparr>)"
    by (simp only: authenticate_git_repo_key key_shallow sum.case lookup)
  show ?thesis using same run_full run_shallow by blast
qed


end
